theory Spec2Isabelle
  imports Complex_Main
begin

section \<open>Numbers, arrays and the object store\<close>

text \<open>
  A JavaScript number is modelled as a real: rounding, overflow, the infinities, NaN and
  the sign of zero are outside the model. An array of numbers is a \<open>real list\<close>.
  Objects live in a store and are named by their position in it; the store only grows,
  so a reference, once valid, stays valid. A matrix object has the single field
  \<open>entries\<close>, assigned once by the constructor, so a matrix is named by the reference
  of its entries array.
\<close>

type_synonym ref = nat

type_synonym mheap = "real list list"

text \<open>The only exception the library throws: \<open>throw new Error("The determinant of this
  matrix is 0. ...")\<close> in \<open>inverse\<close>.\<close>

datatype error = SingularMatrix

text \<open>
  \<open>a[i] = v\<close>. Inside the array the position is overwritten; at \<open>i = a.length\<close> the
  array grows by one; further out JavaScript leaves holes, which read as \<open>undefined\<close>.
  A hole is no number, so the model leaves its value unspecified, as it does for a read
  past the end (\<open>xs ! i\<close>).
\<close>

definition array_set :: "real list \<Rightarrow> nat \<Rightarrow> real \<Rightarrow> real list" where
  "array_set xs i v =
     (if i < length xs then xs[i := v]
      else if i = length xs then xs @ [v]
      else xs @ replicate (i - length xs) undefined @ [v])"

text \<open>\<open>m.entries[i] = v\<close> for the matrix at reference \<open>m\<close>.\<close>

definition put :: "mheap \<Rightarrow> ref \<Rightarrow> nat \<Rightarrow> real \<Rightarrow> mheap" where
  "put h m i v = h[m := array_set (h ! m) i v]"

text \<open>\<open>entries.push(v)\<close> for the array at reference \<open>a\<close>.\<close>

definition push :: "mheap \<Rightarrow> ref \<Rightarrow> real \<Rightarrow> mheap" where
  "push h a v = h[a := h ! a @ [v]]"

text \<open>An array literal or \<open>[...xs]\<close>: a fresh array, at a fresh reference.\<close>

definition new_array :: "mheap \<Rightarrow> real list \<Rightarrow> ref \<times> mheap" where
  "new_array h es = (length h, h @ [es])"

section \<open>Matrix2x2\<close>

definition Matrix2x2_identity :: "mheap \<Rightarrow> ref \<times> mheap" where
  "Matrix2x2_identity h = new_array h [1, 0, 0, 1]"

definition Matrix2x2_copy :: "mheap \<Rightarrow> ref \<Rightarrow> ref \<times> mheap" where
  "Matrix2x2_copy h this = new_array h (h ! this)"

definition Matrix2x2_mult :: "mheap \<Rightarrow> ref \<Rightarrow> ref \<Rightarrow> mheap" where
  "Matrix2x2_mult h this b =
     (let (a, h0) = Matrix2x2_copy h this in
      fold (\<lambda>i h1.
        fold (\<lambda>j h2.
          let sum = fold (\<lambda>k s. s + h2 ! a ! (i * 2 + k) * h2 ! b ! (k * 2 + j)) [0..<2] 0
          in put h2 this (i * 2 + j) sum) [0..<2] h1) [0..<2] h0)"

definition Matrix2x2_premult :: "mheap \<Rightarrow> ref \<Rightarrow> ref \<Rightarrow> mheap" where
  "Matrix2x2_premult h this b =
     (let (a, h0) = Matrix2x2_copy h this in
      fold (\<lambda>i h1.
        fold (\<lambda>j h2.
          let sum = fold (\<lambda>k s. s + h2 ! b ! (k * 2 + j) * h2 ! a ! (i * 2 + k)) [0..<2] 0
          in put h2 this (i * 2 + j) sum) [0..<2] h1) [0..<2] h0)"

text \<open>The methods that only read \<open>this\<close> are functions of its entries.\<close>

definition Matrix2x2_determinant :: "real list \<Rightarrow> real" where
  "Matrix2x2_determinant es = es ! 0 * es ! 3 - es ! 1 * es ! 2"

section \<open>Matrix3x3\<close>

definition Matrix3x3_identity :: "mheap \<Rightarrow> ref \<times> mheap" where
  "Matrix3x3_identity h = new_array h [1, 0, 0, 0, 1, 0, 0, 0, 1]"

definition Matrix3x3_translation :: "mheap \<Rightarrow> real \<Rightarrow> real \<Rightarrow> ref \<times> mheap" where
  "Matrix3x3_translation h tx ty = new_array h [1, 0, 0, 0, 1, 0, tx, ty, 1]"

definition Matrix3x3_rotation :: "mheap \<Rightarrow> real \<Rightarrow> ref \<times> mheap" where
  "Matrix3x3_rotation h angleInRadians =
     (let c = cos angleInRadians; s = sin angleInRadians
      in new_array h [c, - s, 0, s, c, 0, 0, 0, 1])"

definition Matrix3x3_scaling :: "mheap \<Rightarrow> real \<Rightarrow> real \<Rightarrow> ref \<times> mheap" where
  "Matrix3x3_scaling h sx sy = new_array h [sx, 0, 0, 0, sy, 0, 0, 0, 1]"

text \<open>
  \<open>projection(width, height)\<close>. The divisions are not guarded: for a zero \<open>width\<close> or
  \<open>height\<close> JavaScript stores an infinity, where HOL's division gives 0.
\<close>

definition Matrix3x3_projection :: "mheap \<Rightarrow> real \<Rightarrow> real \<Rightarrow> ref \<times> mheap" where
  "Matrix3x3_projection h width height =
     new_array h [2 / width, 0, 0, 0, - 2 / height, 0, - 1, 1, 1]"

definition Matrix3x3_copy :: "mheap \<Rightarrow> ref \<Rightarrow> ref \<times> mheap" where
  "Matrix3x3_copy h this = new_array h (h ! this)"

definition Matrix3x3_mult :: "mheap \<Rightarrow> ref \<Rightarrow> ref \<Rightarrow> mheap" where
  "Matrix3x3_mult h this b =
     (let (a, h0) = Matrix3x3_copy h this in
      fold (\<lambda>i h1.
        fold (\<lambda>j h2.
          let sum = fold (\<lambda>k s. s + h2 ! a ! (i * 3 + k) * h2 ! b ! (k * 3 + j)) [0..<3] 0
          in put h2 this (i * 3 + j) sum) [0..<3] h1) [0..<3] h0)"

text \<open>The static \<open>multiply(a, b)\<close>: a new identity, multiplied by \<open>a\<close> and then by \<open>b\<close>.\<close>

definition Matrix3x3_multiply :: "mheap \<Rightarrow> ref \<Rightarrow> ref \<Rightarrow> ref \<times> mheap" where
  "Matrix3x3_multiply h a b =
     (let (c, h0) = Matrix3x3_identity h;
          h1 = Matrix3x3_mult h0 c a;
          h2 = Matrix3x3_mult h1 c b
      in (c, h2))"

definition Matrix3x3_premult :: "mheap \<Rightarrow> ref \<Rightarrow> ref \<Rightarrow> mheap" where
  "Matrix3x3_premult h this b =
     (let (a, h0) = Matrix3x3_copy h this in
      fold (\<lambda>i h1.
        fold (\<lambda>j h2.
          let sum = fold (\<lambda>k s. s + h2 ! b ! (k * 3 + j) * h2 ! a ! (i * 3 + k)) [0..<3] 0
          in put h2 this (i * 3 + j) sum) [0..<3] h1) [0..<3] h0)"

definition Matrix3x3_translate :: "mheap \<Rightarrow> ref \<Rightarrow> real \<Rightarrow> real \<Rightarrow> mheap" where
  "Matrix3x3_translate h this tx ty =
     (let (t, h0) = Matrix3x3_translation h tx ty in Matrix3x3_mult h0 this t)"

definition Matrix3x3_scale :: "mheap \<Rightarrow> ref \<Rightarrow> real \<Rightarrow> real \<Rightarrow> mheap" where
  "Matrix3x3_scale h this sx sy =
     (let (s, h0) = Matrix3x3_scaling h sx sy in Matrix3x3_mult h0 this s)"

definition Matrix3x3_rotate :: "mheap \<Rightarrow> ref \<Rightarrow> real \<Rightarrow> mheap" where
  "Matrix3x3_rotate h this angleInRadians =
     (let (r, h0) = Matrix3x3_rotation h angleInRadians in Matrix3x3_mult h0 this r)"

text \<open>\<open>_cofactor(i, j)\<close>: the entries of the new \<open>Matrix2x2\<close>, pushed in reading order.\<close>

definition Matrix3x3_cofactor :: "real list \<Rightarrow> nat \<Rightarrow> nat \<Rightarrow> real list" where
  "Matrix3x3_cofactor es i j =
     fold (\<lambda>a entries.
       if a = i then entries
       else fold (\<lambda>b entries'.
              if b = j then entries' else entries' @ [es ! (a * 3 + b)]) [0..<3] entries)
       [0..<3] []"

definition Matrix3x3_determinant :: "real list \<Rightarrow> real" where
  "Matrix3x3_determinant es =
     fold (\<lambda>j sum.
       let sign = (- 1) ^ j;
           subDet = Matrix2x2_determinant (Matrix3x3_cofactor es 0 j)
       in sum + sign * es ! j * subDet) [0..<3] 0"

text \<open>
  \<open>_adjointDeterminant(i, j)\<close> writes into its own copy of the matrix, so it takes the
  store and returns it with the copy in it.
\<close>

definition Matrix3x3_adjointDeterminant :: "mheap \<Rightarrow> ref \<Rightarrow> nat \<Rightarrow> nat \<Rightarrow> real \<times> mheap" where
  "Matrix3x3_adjointDeterminant h this i j =
     (let (adjoint, h0) = Matrix3x3_copy h this;
          h1 = fold (\<lambda>k h'. put h' adjoint (k * 3 + i) (if k = j then 1 else 0)) [0..<3] h0
      in (Matrix3x3_determinant (h1 ! adjoint), h1))"

text \<open>
  \<open>inverse()\<close>: the error and the unchanged store when the determinant is 0, otherwise
  the reference of the new matrix. Both loops of the source run to 4.
\<close>

definition Matrix3x3_inverse :: "mheap \<Rightarrow> ref \<Rightarrow> (error + ref) \<times> mheap" where
  "Matrix3x3_inverse h this =
     (let det = Matrix3x3_determinant (h ! this) in
      if det = 0 then (Inl SingularMatrix, h)
      else
        let (entries, h0) = new_array h [];
            h1 = fold (\<lambda>i h'.
                   fold (\<lambda>j h''.
                     let (d, h3) = Matrix3x3_adjointDeterminant h'' this i j
                     in push h3 entries (d / det)) [0..<4] h') [0..<4] h0
        in (Inr entries, h1))"

section \<open>Vector3\<close>

text \<open>
  A \<open>Vector3\<close> object has three number fields. The methods \<open>sub\<close>, \<open>add\<close>,
  \<open>divide\<close>, \<open>normalize\<close> and \<open>zeroValues\<close> assign to them, so vectors live in a
  store of their own, and a vector is named by its reference.
\<close>

record Vector3 =
  x :: real
  y :: real
  z :: real

type_synonym vheap = "Vector3 list"

text \<open>\<open>new Vector3(x, y, z)\<close>\<close>

definition new_Vector3 :: "vheap \<Rightarrow> real \<Rightarrow> real \<Rightarrow> real \<Rightarrow> ref \<times> vheap" where
  "new_Vector3 h a b c = (length h, h @ [\<lparr>x = a, y = b, z = c\<rparr>])"

text \<open>\<open>v.x = a\<close>, \<open>v.y = a\<close>, \<open>v.z = a\<close>\<close>

definition set_x :: "vheap \<Rightarrow> ref \<Rightarrow> real \<Rightarrow> vheap" where
  "set_x h v a = h[v := (h ! v)\<lparr>x := a\<rparr>]"

definition set_y :: "vheap \<Rightarrow> ref \<Rightarrow> real \<Rightarrow> vheap" where
  "set_y h v a = h[v := (h ! v)\<lparr>y := a\<rparr>]"

definition set_z :: "vheap \<Rightarrow> ref \<Rightarrow> real \<Rightarrow> vheap" where
  "set_z h v a = h[v := (h ! v)\<lparr>z := a\<rparr>]"

definition Vector3_fromArray :: "vheap \<Rightarrow> real list \<Rightarrow> ref \<times> vheap" where
  "Vector3_fromArray h entries = new_Vector3 h (entries ! 0) (entries ! 1) (entries ! 2)"

definition Vector3_subtract :: "vheap \<Rightarrow> ref \<Rightarrow> ref \<Rightarrow> ref \<times> vheap" where
  "Vector3_subtract h v1 v2 =
     new_Vector3 h (x (h ! v1) - x (h ! v2)) (y (h ! v1) - y (h ! v2)) (z (h ! v1) - z (h ! v2))"

definition Vector3_sum :: "vheap \<Rightarrow> ref \<Rightarrow> ref \<Rightarrow> ref \<times> vheap" where
  "Vector3_sum h v1 v2 =
     new_Vector3 h (x (h ! v1) + x (h ! v2)) (y (h ! v1) + y (h ! v2)) (z (h ! v1) + z (h ! v2))"

definition Vector3_cross :: "vheap \<Rightarrow> ref \<Rightarrow> ref \<Rightarrow> ref \<times> vheap" where
  "Vector3_cross h v1 v2 =
     new_Vector3 h
       (y (h ! v1) * z (h ! v2) - z (h ! v1) * y (h ! v2))
       (z (h ! v1) * x (h ! v2) - x (h ! v1) * z (h ! v2))
       (x (h ! v1) * y (h ! v2) - y (h ! v1) * x (h ! v2))"

definition Vector3_sub :: "vheap \<Rightarrow> ref \<Rightarrow> ref \<Rightarrow> vheap" where
  "Vector3_sub h this v =
     (let h1 = set_x h this (x (h ! this) - x (h ! v));
          h2 = set_y h1 this (y (h1 ! this) - y (h1 ! v))
      in set_z h2 this (z (h2 ! this) - z (h2 ! v)))"

definition Vector3_add :: "vheap \<Rightarrow> ref \<Rightarrow> ref \<Rightarrow> vheap" where
  "Vector3_add h this v =
     (let h1 = set_x h this (x (h ! this) + x (h ! v));
          h2 = set_y h1 this (y (h1 ! this) + y (h1 ! v))
      in set_z h2 this (z (h2 ! this) + z (h2 ! v)))"

text \<open>
  \<open>divide(d)\<close>. For \<open>d = 0\<close> JavaScript stores an infinity or NaN where HOL's division
  gives 0; \<open>normalize\<close> only divides by a length above \<open>Number.EPSILON\<close>.
\<close>

definition Vector3_divide :: "vheap \<Rightarrow> ref \<Rightarrow> real \<Rightarrow> vheap" where
  "Vector3_divide h this d =
     (let h1 = set_x h this (x (h ! this) / d);
          h2 = set_y h1 this (y (h1 ! this) / d)
      in set_z h2 this (z (h2 ! this) / d))"

definition Vector3_length :: "Vector3 \<Rightarrow> real" where
  "Vector3_length v = sqrt ((x v)\<^sup>2 + (y v)\<^sup>2 + (z v)\<^sup>2)"

definition Vector3_zeroValues :: "vheap \<Rightarrow> ref \<Rightarrow> vheap" where
  "Vector3_zeroValues h this = set_z (set_y (set_x h this 0) this 0) this 0"

text \<open>\<open>Number.EPSILON\<close> is \<open>2\<^sup>-\<^sup>5\<^sup>2\<close>.\<close>

definition Number_EPSILON :: real where
  "Number_EPSILON = 1 / 2 ^ 52"

text \<open>\<open>normalize()\<close> returns \<open>this\<close>: the reference it was called on.\<close>

definition Vector3_normalize :: "vheap \<Rightarrow> ref \<Rightarrow> ref \<times> vheap" where
  "Vector3_normalize h this =
     (let length = Vector3_length (h ! this);
          h1 = (if length > Number_EPSILON then Vector3_divide h this length
                else Vector3_zeroValues h this)
      in (this, h1))"

definition Vector3_entries :: "Vector3 \<Rightarrow> real list" where
  "Vector3_entries v = [x v, y v, z v]"

section \<open>Matrix4x4\<close>

definition Matrix4x4_identity :: "mheap \<Rightarrow> ref \<times> mheap" where
  "Matrix4x4_identity h = new_array h [1, 0, 0, 0, 0, 1, 0, 0, 0, 0, 1, 0, 0, 0, 0, 1]"

definition Matrix4x4_fromTranslation :: "mheap \<Rightarrow> real \<Rightarrow> real \<Rightarrow> real \<Rightarrow> ref \<times> mheap" where
  "Matrix4x4_fromTranslation h tx ty tz =
     new_array h [1, 0, 0, 0, 0, 1, 0, 0, 0, 0, 1, 0, tx, ty, tz, 1]"

definition Matrix4x4_fromXRotation :: "mheap \<Rightarrow> real \<Rightarrow> ref \<times> mheap" where
  "Matrix4x4_fromXRotation h angleInRadians =
     (let c = cos angleInRadians; s = sin angleInRadians
      in new_array h [1, 0, 0, 0, 0, c, s, 0, 0, - s, c, 0, 0, 0, 0, 1])"

definition Matrix4x4_fromYRotation :: "mheap \<Rightarrow> real \<Rightarrow> ref \<times> mheap" where
  "Matrix4x4_fromYRotation h angleInRadians =
     (let c = cos angleInRadians; s = sin angleInRadians
      in new_array h [c, 0, - s, 0, 0, 1, 0, 0, s, 0, c, 0, 0, 0, 0, 1])"

definition Matrix4x4_fromZRotation :: "mheap \<Rightarrow> real \<Rightarrow> ref \<times> mheap" where
  "Matrix4x4_fromZRotation h angleInRadians =
     (let c = cos angleInRadians; s = sin angleInRadians
      in new_array h [c, s, 0, 0, - s, c, 0, 0, 0, 0, 1, 0, 0, 0, 0, 1])"

definition Matrix4x4_fromScaling :: "mheap \<Rightarrow> real \<Rightarrow> real \<Rightarrow> real \<Rightarrow> ref \<times> mheap" where
  "Matrix4x4_fromScaling h sx sy sz =
     new_array h [sx, 0, 0, 0, 0, sy, 0, 0, 0, 0, sz, 0, 0, 0, 0, 1]"

text \<open>
  \<open>orthographic\<close> and \<open>perspective(fieldOfViewInRadians, aspect, near = 1, far = 2000)\<close>;
  an argument left out is \<open>None\<close>. Their divisions are not guarded either.
\<close>

definition Matrix4x4_orthographic ::
  "mheap \<Rightarrow> real \<Rightarrow> real \<Rightarrow> real \<Rightarrow> real \<Rightarrow> real \<Rightarrow> real \<Rightarrow> ref \<times> mheap" where
  "Matrix4x4_orthographic h left right bottom top' near far =
     new_array h
       [2 / (right - left), 0, 0, 0,
        0, 2 / (top' - bottom), 0, 0,
        0, 0, 2 / (near - far), 0,
        (left + right) / (left - right),
        (bottom + top') / (bottom - top'),
        (near + far) / (near - far),
        1]"

definition Matrix4x4_perspective ::
  "mheap \<Rightarrow> real \<Rightarrow> real \<Rightarrow> real option \<Rightarrow> real option \<Rightarrow> ref \<times> mheap" where
  "Matrix4x4_perspective h fieldOfViewInRadians aspect near_arg far_arg =
     (let near = (case near_arg of None \<Rightarrow> 1 | Some n \<Rightarrow> n);
          far = (case far_arg of None \<Rightarrow> 2000 | Some f \<Rightarrow> f);
          f = tan (pi * 0.5 - 0.5 * fieldOfViewInRadians);
          rangeInv = 1.0 / (near - far)
      in new_array h
           [f / aspect, 0, 0, 0,
            0, f, 0, 0,
            0, 0, (near + far) * rangeInv, - 1,
            0, 0, near * far * rangeInv * 2, 0])"

text \<open>
  \<open>lookAt(origin, target, up = new Vector3(0, 1, 0))\<close>: the default vector is created
  when the caller passes no \<open>up\<close>.
\<close>

definition Matrix4x4_lookAt ::
  "vheap \<Rightarrow> mheap \<Rightarrow> ref \<Rightarrow> ref \<Rightarrow> ref option \<Rightarrow> ref \<times> vheap \<times> mheap" where
  "Matrix4x4_lookAt vh mh origin target up_arg =
     (let (up, vh0) = (case up_arg of None \<Rightarrow> new_Vector3 vh 0 1 0 | Some u \<Rightarrow> (u, vh));
          (d, vh1) = Vector3_subtract vh0 origin target;
          (zAxis, vh2) = Vector3_normalize vh1 d;
          (c1, vh3) = Vector3_cross vh2 up zAxis;
          (xAxis, vh4) = Vector3_normalize vh3 c1;
          (c2, vh5) = Vector3_cross vh4 zAxis xAxis;
          (yAxis, vh6) = Vector3_normalize vh5 c2;
          (m, mh1) = new_array mh
            [x (vh6 ! xAxis), y (vh6 ! xAxis), z (vh6 ! xAxis), 0,
             x (vh6 ! yAxis), y (vh6 ! yAxis), z (vh6 ! yAxis), 0,
             x (vh6 ! zAxis), y (vh6 ! zAxis), z (vh6 ! zAxis), 0,
             x (vh6 ! origin), y (vh6 ! origin), z (vh6 ! origin), 1]
      in (m, vh6, mh1))"

definition Matrix4x4_copy :: "mheap \<Rightarrow> ref \<Rightarrow> ref \<times> mheap" where
  "Matrix4x4_copy h this = new_array h (h ! this)"

definition Matrix4x4_mult :: "mheap \<Rightarrow> ref \<Rightarrow> ref \<Rightarrow> mheap" where
  "Matrix4x4_mult h this b =
     (let (a, h0) = Matrix4x4_copy h this in
      fold (\<lambda>i h1.
        fold (\<lambda>j h2.
          let sum = fold (\<lambda>k s. s + h2 ! a ! (i * 4 + k) * h2 ! b ! (k * 4 + j)) [0..<4] 0
          in put h2 this (i * 4 + j) sum) [0..<4] h1) [0..<4] h0)"

definition Matrix4x4_multiply :: "mheap \<Rightarrow> ref \<Rightarrow> ref \<Rightarrow> ref \<times> mheap" where
  "Matrix4x4_multiply h a b =
     (let (c, h0) = Matrix4x4_identity h;
          h1 = Matrix4x4_mult h0 c a;
          h2 = Matrix4x4_mult h1 c b
      in (c, h2))"

definition Matrix4x4_premult :: "mheap \<Rightarrow> ref \<Rightarrow> ref \<Rightarrow> mheap" where
  "Matrix4x4_premult h this b =
     (let (a, h0) = Matrix4x4_copy h this in
      fold (\<lambda>i h1.
        fold (\<lambda>j h2.
          let sum = fold (\<lambda>k s. s + h2 ! b ! (i * 4 + k) * h2 ! a ! (k * 4 + j)) [0..<4] 0
          in put h2 this (i * 4 + j) sum) [0..<4] h1) [0..<4] h0)"

definition Matrix4x4_translate :: "mheap \<Rightarrow> ref \<Rightarrow> real \<Rightarrow> real \<Rightarrow> real \<Rightarrow> mheap" where
  "Matrix4x4_translate h this tx ty tz =
     (let (t, h0) = Matrix4x4_fromTranslation h tx ty tz in Matrix4x4_premult h0 this t)"

definition Matrix4x4_scale :: "mheap \<Rightarrow> ref \<Rightarrow> real \<Rightarrow> real \<Rightarrow> real \<Rightarrow> mheap" where
  "Matrix4x4_scale h this sx sy sz =
     (let (s, h0) = Matrix4x4_fromScaling h sx sy sz in Matrix4x4_premult h0 this s)"

definition Matrix4x4_xRotate :: "mheap \<Rightarrow> ref \<Rightarrow> real \<Rightarrow> mheap" where
  "Matrix4x4_xRotate h this angleInRadians =
     (let (r, h0) = Matrix4x4_fromXRotation h angleInRadians in Matrix4x4_premult h0 this r)"

definition Matrix4x4_yRotate :: "mheap \<Rightarrow> ref \<Rightarrow> real \<Rightarrow> mheap" where
  "Matrix4x4_yRotate h this angleInRadians =
     (let (r, h0) = Matrix4x4_fromYRotation h angleInRadians in Matrix4x4_premult h0 this r)"

definition Matrix4x4_zRotate :: "mheap \<Rightarrow> ref \<Rightarrow> real \<Rightarrow> mheap" where
  "Matrix4x4_zRotate h this angleInRadians =
     (let (r, h0) = Matrix4x4_fromZRotation h angleInRadians in Matrix4x4_premult h0 this r)"

text \<open>\<open>_cofactor(i, j)\<close>: the entries of the new \<open>Matrix3x3\<close>.\<close>

definition Matrix4x4_cofactor :: "real list \<Rightarrow> nat \<Rightarrow> nat \<Rightarrow> real list" where
  "Matrix4x4_cofactor es i j =
     fold (\<lambda>a entries.
       if a = i then entries
       else fold (\<lambda>b entries'.
              if b = j then entries' else entries' @ [es ! (a * 4 + b)]) [0..<4] entries)
       [0..<4] []"

definition Matrix4x4_determinant :: "real list \<Rightarrow> real" where
  "Matrix4x4_determinant es =
     fold (\<lambda>j sum.
       let sign = (- 1) ^ j;
           subDet = Matrix3x3_determinant (Matrix4x4_cofactor es 0 j)
       in sum + sign * es ! j * subDet) [0..<4] 0"

definition Matrix4x4_adjointDeterminant :: "mheap \<Rightarrow> ref \<Rightarrow> nat \<Rightarrow> nat \<Rightarrow> real \<times> mheap" where
  "Matrix4x4_adjointDeterminant h this i j =
     (let (adjoint, h0) = Matrix4x4_copy h this;
          h1 = fold (\<lambda>k h'. put h' adjoint (k * 4 + i) (if k = j then 1 else 0)) [0..<4] h0
      in (Matrix4x4_determinant (h1 ! adjoint), h1))"

definition Matrix4x4_inverse :: "mheap \<Rightarrow> ref \<Rightarrow> (error + ref) \<times> mheap" where
  "Matrix4x4_inverse h this =
     (let det = Matrix4x4_determinant (h ! this) in
      if det = 0 then (Inl SingularMatrix, h)
      else
        let (entries, h0) = new_array h [];
            h1 = fold (\<lambda>i h'.
                   fold (\<lambda>j h''.
                     let (d, h3) = Matrix4x4_adjointDeterminant h'' this i j
                     in push h3 entries (d / det)) [0..<4] h') [0..<4] h0
        in (Inr entries, h1))"

section \<open>Derived descriptions\<close>

text \<open>
  The entries of the copy that \<open>_adjointDeterminant(i, j)\<close> works on, after its loop:
  column \<open>i\<close> overwritten, row by row.
\<close>

definition adjoint3 :: "real list \<Rightarrow> nat \<Rightarrow> nat \<Rightarrow> real list" where
  "adjoint3 es i j =
     fold (\<lambda>k es'. array_set es' (k * 3 + i) (if k = j then 1 else 0)) [0..<3] es"

definition adjoint4 :: "real list \<Rightarrow> nat \<Rightarrow> nat \<Rightarrow> real list" where
  "adjoint4 es i j =
     fold (\<lambda>k es'. array_set es' (k * 4 + i) (if k = j then 1 else 0)) [0..<4] es"



text \<open>
  Modelled from the spec: the product of a row vector and a matrix of order 3, which the
  library leaves to its callers. The spec's row-vector convention is \<open>v' = v \<times> M\<close>, with
  element (row \<open>k\<close>, column \<open>j\<close>) of \<open>M\<close> at index \<open>k * 3 + j\<close>.
\<close>

definition row_times :: "real list \<Rightarrow> real list \<Rightarrow> real list" where
  "row_times v m = map (\<lambda>j. fold (\<lambda>k s. s + v ! k * m ! (k * 3 + j)) [0..<3] 0) [0..<3]"

section \<open>Loops over the store\<close>


lemma upt_2: "[0..<2] = [0, 1]"
  by (simp add: upt_rec)
lemma upt_3: "[0..<3] = [0, 1, 2]"
  by (simp add: upt_rec)
lemma upt_4: "[0..<4] = [0, 1, 2, 3]"
  by (simp add: upt_rec)

lemma fold_nested:
  "fold (\<lambda>i. fold (g i) js) is = fold (\<lambda>p. g (fst p) (snd p)) (List.product is js)"
  by (induction "is") (simp_all add: fold_map comp_def)

lemma put_last: "put (h @ [es]) (length h) i v = h @ [array_set es i v]"
  by (simp add: put_def)

lemma fold_put_last:
  "fold (\<lambda>k h'. put h' (length h) (f k) (g k)) ks (h @ [es])
     = h @ [fold (\<lambda>k es'. array_set es' (f k) (g k)) ks es]"
  by (induction ks arbitrary: es) (simp_all add: put_last)

lemma push_append: "a < length h \<Longrightarrow> push (h @ [c]) a v = push h a v @ [c]"
  by (simp add: push_def nth_append list_update_append)

text \<open>A loop that writes into one array and reads the others.\<close>

lemma fold_put_frame:
  assumes "this < length H"
    and "\<And>H' p. length H' = length H \<Longrightarrow> (\<forall>r. r \<noteq> this \<longrightarrow> H' ! r = H ! r) \<Longrightarrow> S H' p = s p"
  shows "fold (\<lambda>p h2. put h2 this (f p) (S h2 p)) ps H
           = H[this := fold (\<lambda>p es. array_set es (f p) (s p)) ps (H ! this)]"
  using assms
proof (induction ps arbitrary: H)
  case Nil
  then show ?case by simp
next
  case (Cons p ps)
  let ?H1 = "H[this := array_set (H ! this) (f p) (s p)]"
  have sp: "S H p = s p"
    by (rule Cons.prems(2)) simp_all
  have len1: "this < length ?H1"
    using Cons.prems(1) by simp
  have frame1: "S H' q = s q"
    if "length H' = length ?H1" "\<forall>r. r \<noteq> this \<longrightarrow> H' ! r = ?H1 ! r" for H' q
    using that by (intro Cons.prems(2)) simp_all
  have "fold (\<lambda>p h2. put h2 this (f p) (S h2 p)) (p # ps) H
          = fold (\<lambda>p h2. put h2 this (f p) (S h2 p)) ps ?H1"
    by (simp add: put_def sp)
  also have "\<dots> = ?H1[this := fold (\<lambda>p es. array_set es (f p) (s p)) ps (?H1 ! this)]"
    using len1 frame1 by (rule Cons.IH)
  finally show ?case
    using Cons.prems(1) by simp
qed

text \<open>Writing position \<open>k\<close> in the \<open>k\<close>-th step fills the array from the left.\<close>

lemma fold_array_set_fill:
  assumes "map f ps = [0..<length ps]" and "length ps \<le> length es"
  shows "fold (\<lambda>p es'. array_set es' (f p) (s p)) ps es = map s ps @ drop (length ps) es"
  using assms
proof (induction ps rule: rev_induct)
  case Nil
  then show ?case by simp
next
  case (snoc p ps)
  from snoc.prems(1) have fp: "f p = length ps" and pre: "map f ps = [0..<length ps]"
    by simp_all
  from snoc.prems(2) have le: "length ps < length es"
    by simp
  have IH: "fold (\<lambda>p es'. array_set es' (f p) (s p)) ps es = map s ps @ drop (length ps) es"
    using pre le by (intro snoc.IH) simp_all
  have dr: "drop (length ps) es = es ! length ps # drop (Suc (length ps)) es"
    using le by (simp add: Cons_nth_drop_Suc)
  have "fold (\<lambda>p es'. array_set es' (f p) (s p)) (ps @ [p]) es
          = array_set (map s ps @ drop (length ps) es) (length ps) (s p)"
    by (simp add: IH fp)
  also have "\<dots> = map s (ps @ [p]) @ drop (length (ps @ [p])) es"
    using le by (simp add: array_set_def list_update_append dr)
  finally show ?case .
qed

text \<open>The loop of \<open>inverse\<close>, for any routine that works on a copy.\<close>

lemma fold_push_copies:
  assumes F: "\<And>h i j. F h this i j = (D (h ! this) i j, h @ [A (h ! this) i j])"
    and "this < length H" "entries < length H" "entries \<noteq> this"
  shows "fold (\<lambda>p h''. let (d, h3) = F h'' this (fst p) (snd p)
                        in push h3 entries (d / det)) ps H
     = H[entries := H ! entries @ map (\<lambda>p. D (H ! this) (fst p) (snd p) / det) ps]
       @ map (\<lambda>p. A (H ! this) (fst p) (snd p)) ps"
  using assms(2-)
proof (induction ps arbitrary: H)
  case Nil
  then show ?case by simp
next
  case (Cons p ps)
  let ?v = "D (H ! this) (fst p) (snd p) / det"
  let ?H1 = "push H entries ?v @ [A (H ! this) (fst p) (snd p)]"
  have len: "this < length ?H1" "entries < length ?H1"
    using Cons.prems by (simp_all add: push_def)
  have this1: "?H1 ! this = H ! this"
    using Cons.prems by (simp add: push_def nth_append)
  have ent1: "?H1 ! entries = H ! entries @ [?v]"
    using Cons.prems by (simp add: push_def nth_append)
  have step: "fold (\<lambda>p h''. let (d, h3) = F h'' this (fst p) (snd p)
                        in push h3 entries (d / det)) (p # ps) H
      = fold (\<lambda>p h''. let (d, h3) = F h'' this (fst p) (snd p)
                        in push h3 entries (d / det)) ps ?H1"
    using Cons.prems by (simp add: F push_append)
  show ?case
    unfolding step Cons.IH [OF len Cons.prems(3)] this1 ent1
    using Cons.prems by (simp add: push_def list_update_append)
qed


lemma product_upt_index:
  "map (\<lambda>p. fst p * n + snd p) (List.product [0..<n] [0..<n]) = [0..<n * n]"
proof (rule nth_equalityI)
  show "length (map (\<lambda>p. fst p * n + snd p) (List.product [0..<n] [0..<n])) = length [0..<n * n]"
    by simp
next
  fix k
  assume "k < length (map (\<lambda>p. fst p * n + snd p) (List.product [0..<n] [0..<n]))"
  then have k: "k < n * n"
    by simp
  then have "0 < n"
    by (cases n) simp_all
  then have "k mod n < n"
    by simp
  moreover have "k div n < n"
    using k by (simp add: less_mult_imp_div_less)
  ultimately show "map (\<lambda>p. fst p * n + snd p) (List.product [0..<n] [0..<n]) ! k = [0..<n * n] ! k"
    using k by (simp add: product_nth)
qed

text \<open>The three nested loops of \<open>mult\<close> and \<open>premult\<close>, when \<open>b\<close> is another object.\<close>

lemma mult_loop:
  assumes "this < length h" "b < length h" "this \<noteq> b" "n * n \<le> length (h ! this)"
  shows "fold (\<lambda>i. fold (\<lambda>j h2.
            put h2 this (i * n + j) (fold (\<lambda>k s. s + T (h2 ! length h) (h2 ! b) i j k) ks 0))
            [0..<n]) [0..<n] (h @ [h ! this])
         = h[this := map (\<lambda>p. fold (\<lambda>k s. s + T (h ! this) (h ! b) (fst p) (snd p) k) ks 0)
                       (List.product [0..<n] [0..<n]) @ drop (n * n) (h ! this)] @ [h ! this]"
proof -
  let ?H = "h @ [h ! this]"
  let ?s = "\<lambda>p. fold (\<lambda>k s. s + T (h ! this) (h ! b) (fst p) (snd p) k) ks (0::real)"
  let ?S = "\<lambda>h2 p. fold (\<lambda>k s. s + T (h2 ! length h) (h2 ! b) (fst p) (snd p) k) ks (0::real)"
  let ?f = "\<lambda>p::nat \<times> nat. fst p * n + snd p"
  let ?ps = "List.product [0..<n] [0..<n]"
  have len: "this < length ?H"
    using assms(1) by simp
  have frame: "?S H' p = ?s p"
    if "length H' = length ?H" "\<forall>r. r \<noteq> this \<longrightarrow> H' ! r = ?H ! r" for H' p
  proof -
    have "H' ! length h = h ! this"
      using that(2) assms(1) by (metis nat_neq_iff nth_append_length)
    moreover have "H' ! b = h ! b"
      using that(2) assms(2,3) by (simp add: nth_append)
    ultimately show ?thesis
      by simp
  qed
  have "fold (\<lambda>i. fold (\<lambda>j h2. put h2 this (i * n + j)
            (fold (\<lambda>k s. s + T (h2 ! length h) (h2 ! b) i j k) ks 0)) [0..<n]) [0..<n] ?H
        = fold (\<lambda>p h2. put h2 this (?f p) (?S h2 p)) ?ps ?H"
    by (simp add: fold_nested)
  also have "\<dots> = ?H[this := fold (\<lambda>p es. array_set es (?f p) (?s p)) ?ps (?H ! this)]"
    using len frame by (rule fold_put_frame)
  also have "fold (\<lambda>p es. array_set es (?f p) (?s p)) ?ps (?H ! this)
               = map ?s ?ps @ drop (n * n) (h ! this)"
    using assms(1,4) by (simp add: fold_array_set_fill product_upt_index nth_append)
  finally show ?thesis
    using assms(1) by (simp add: list_update_append)
qed

section \<open>What the methods compute\<close>

lemma Matrix4x4_mult_eq:
  assumes "this < length h" "b < length h" "this \<noteq> b" "16 \<le> length (h ! this)"
  shows "Matrix4x4_mult h this b
     = h[this := map (\<lambda>p. fold (\<lambda>k s. s + h ! this ! (fst p * 4 + k) * h ! b ! (k * 4 + snd p)) [0..<4] 0)
                       (List.product [0..<4] [0..<4]) @ drop 16 (h ! this)] @ [h ! this]"
  using mult_loop [OF assms(1-3), of 4 "\<lambda>A B i j k. A ! (i * 4 + k) * B ! (k * 4 + j)" "[0..<4]"] assms(4)
  by (simp add: Matrix4x4_mult_def Matrix4x4_copy_def new_array_def)

lemma Matrix4x4_premult_eq:
  assumes "this < length h" "b < length h" "this \<noteq> b" "16 \<le> length (h ! this)"
  shows "Matrix4x4_premult h this b
     = h[this := map (\<lambda>p. fold (\<lambda>k s. s + h ! b ! (fst p * 4 + k) * h ! this ! (k * 4 + snd p)) [0..<4] 0)
                       (List.product [0..<4] [0..<4]) @ drop 16 (h ! this)] @ [h ! this]"
  using mult_loop [OF assms(1-3), of 4 "\<lambda>A B i j k. B ! (i * 4 + k) * A ! (k * 4 + j)" "[0..<4]"] assms(4)
  by (simp add: Matrix4x4_premult_def Matrix4x4_copy_def new_array_def)

lemma Matrix3x3_mult_eq:
  assumes "this < length h" "b < length h" "this \<noteq> b" "9 \<le> length (h ! this)"
  shows "Matrix3x3_mult h this b
     = h[this := map (\<lambda>p. fold (\<lambda>k s. s + h ! this ! (fst p * 3 + k) * h ! b ! (k * 3 + snd p)) [0..<3] 0)
                       (List.product [0..<3] [0..<3]) @ drop 9 (h ! this)] @ [h ! this]"
  using mult_loop [OF assms(1-3), of 3 "\<lambda>A B i j k. A ! (i * 3 + k) * B ! (k * 3 + j)" "[0..<3]"] assms(4)
  by (simp add: Matrix3x3_mult_def Matrix3x3_copy_def new_array_def)

lemma Matrix3x3_premult_eq:
  assumes "this < length h" "b < length h" "this \<noteq> b" "9 \<le> length (h ! this)"
  shows "Matrix3x3_premult h this b
     = h[this := map (\<lambda>p. fold (\<lambda>k s. s + h ! b ! (k * 3 + snd p) * h ! this ! (fst p * 3 + k)) [0..<3] 0)
                       (List.product [0..<3] [0..<3]) @ drop 9 (h ! this)] @ [h ! this]"
  using mult_loop [OF assms(1-3), of 3 "\<lambda>A B i j k. B ! (k * 3 + j) * A ! (i * 3 + k)" "[0..<3]"] assms(4)
  by (simp add: Matrix3x3_premult_def Matrix3x3_copy_def new_array_def)

lemma Matrix2x2_mult_eq:
  assumes "this < length h" "b < length h" "this \<noteq> b" "4 \<le> length (h ! this)"
  shows "Matrix2x2_mult h this b
     = h[this := map (\<lambda>p. fold (\<lambda>k s. s + h ! this ! (fst p * 2 + k) * h ! b ! (k * 2 + snd p)) [0..<2] 0)
                       (List.product [0..<2] [0..<2]) @ drop 4 (h ! this)] @ [h ! this]"
  using mult_loop [OF assms(1-3), of 2 "\<lambda>A B i j k. A ! (i * 2 + k) * B ! (k * 2 + j)" "[0..<2]"] assms(4)
  by (simp add: Matrix2x2_mult_def Matrix2x2_copy_def new_array_def)

lemma Matrix2x2_premult_eq:
  assumes "this < length h" "b < length h" "this \<noteq> b" "4 \<le> length (h ! this)"
  shows "Matrix2x2_premult h this b
     = h[this := map (\<lambda>p. fold (\<lambda>k s. s + h ! b ! (k * 2 + snd p) * h ! this ! (fst p * 2 + k)) [0..<2] 0)
                       (List.product [0..<2] [0..<2]) @ drop 4 (h ! this)] @ [h ! this]"
  using mult_loop [OF assms(1-3), of 2 "\<lambda>A B i j k. B ! (k * 2 + j) * A ! (i * 2 + k)" "[0..<2]"] assms(4)
  by (simp add: Matrix2x2_premult_def Matrix2x2_copy_def new_array_def)

lemma Matrix3x3_adjointDeterminant_eq:
  "Matrix3x3_adjointDeterminant h this i j =
     (Matrix3x3_determinant (adjoint3 (h ! this) i j), h @ [adjoint3 (h ! this) i j])"
  by (simp add: Matrix3x3_adjointDeterminant_def Matrix3x3_copy_def new_array_def
      fold_put_last adjoint3_def)

lemma Matrix4x4_adjointDeterminant_eq:
  "Matrix4x4_adjointDeterminant h this i j =
     (Matrix4x4_determinant (adjoint4 (h ! this) i j), h @ [adjoint4 (h ! this) i j])"
  by (simp add: Matrix4x4_adjointDeterminant_def Matrix4x4_copy_def new_array_def
      fold_put_last adjoint4_def)

lemma Matrix3x3_inverse_eq:
  assumes "this < length h" "Matrix3x3_determinant (h ! this) \<noteq> 0"
  shows "Matrix3x3_inverse h this =
     (Inr (length h),
      h @ [map (\<lambda>p. Matrix3x3_determinant (adjoint3 (h ! this) (fst p) (snd p))
                     / Matrix3x3_determinant (h ! this)) (List.product [0..<4] [0..<4])]
        @ map (\<lambda>p. adjoint3 (h ! this) (fst p) (snd p)) (List.product [0..<4] [0..<4]))"
proof -
  let ?H = "h @ [[]]"
  have "this < length ?H" "length h < length ?H" "length h \<noteq> this"
    using assms(1) by simp_all
  from fold_push_copies [where F = Matrix3x3_adjointDeterminant, OF Matrix3x3_adjointDeterminant_eq this]
  show ?thesis
    using assms by (simp add: Matrix3x3_inverse_def new_array_def fold_nested nth_append)
qed

lemma Matrix4x4_inverse_eq:
  assumes "this < length h" "Matrix4x4_determinant (h ! this) \<noteq> 0"
  shows "Matrix4x4_inverse h this =
     (Inr (length h),
      h @ [map (\<lambda>p. Matrix4x4_determinant (adjoint4 (h ! this) (fst p) (snd p))
                     / Matrix4x4_determinant (h ! this)) (List.product [0..<4] [0..<4])]
        @ map (\<lambda>p. adjoint4 (h ! this) (fst p) (snd p)) (List.product [0..<4] [0..<4]))"
proof -
  let ?H = "h @ [[]]"
  have "this < length ?H" "length h < length ?H" "length h \<noteq> this"
    using assms(1) by simp_all
  from fold_push_copies [where F = Matrix4x4_adjointDeterminant, OF Matrix4x4_adjointDeterminant_eq this]
  show ?thesis
    using assms by (simp add: Matrix4x4_inverse_def new_array_def fold_nested nth_append)
qed

lemma Matrix3x3_cofactor_row0:
  "Matrix3x3_cofactor es 0 0 = [es ! 4, es ! 5, es ! 7, es ! 8]"
  "Matrix3x3_cofactor es 0 (Suc 0) = [es ! 3, es ! 5, es ! 6, es ! 8]"
  "Matrix3x3_cofactor es 0 2 = [es ! 3, es ! 4, es ! 6, es ! 7]"
  by (simp_all add: Matrix3x3_cofactor_def upt_3)

lemma Matrix3x3_determinant_eq:
  "Matrix3x3_determinant es =
     es ! 0 * (es ! 4 * es ! 8 - es ! 5 * es ! 7)
     - es ! 1 * (es ! 3 * es ! 8 - es ! 5 * es ! 6)
     + es ! 2 * (es ! 3 * es ! 7 - es ! 4 * es ! 6)"
  by (simp add: Matrix3x3_determinant_def upt_3 Matrix3x3_cofactor_row0 Matrix2x2_determinant_def)

lemma Matrix4x4_cofactor_row0:
  "Matrix4x4_cofactor es 0 0 = [es ! 5, es ! 6, es ! 7, es ! 9, es ! 10, es ! 11, es ! 13, es ! 14, es ! 15]"
  "Matrix4x4_cofactor es 0 (Suc 0) = [es ! 4, es ! 6, es ! 7, es ! 8, es ! 10, es ! 11, es ! 12, es ! 14, es ! 15]"
  "Matrix4x4_cofactor es 0 2 = [es ! 4, es ! 5, es ! 7, es ! 8, es ! 9, es ! 11, es ! 12, es ! 13, es ! 15]"
  "Matrix4x4_cofactor es 0 3 = [es ! 4, es ! 5, es ! 6, es ! 8, es ! 9, es ! 10, es ! 12, es ! 13, es ! 14]"
  by (simp_all add: Matrix4x4_cofactor_def upt_4)

lemma Matrix4x4_determinant_eq:
  "Matrix4x4_determinant es =
     es ! 0 * (es ! 5 * (es ! 10 * es ! 15 - es ! 11 * es ! 14)
               - es ! 6 * (es ! 9 * es ! 15 - es ! 11 * es ! 13)
               + es ! 7 * (es ! 9 * es ! 14 - es ! 10 * es ! 13))
     - es ! 1 * (es ! 4 * (es ! 10 * es ! 15 - es ! 11 * es ! 14)
               - es ! 6 * (es ! 8 * es ! 15 - es ! 11 * es ! 12)
               + es ! 7 * (es ! 8 * es ! 14 - es ! 10 * es ! 12))
     + es ! 2 * (es ! 4 * (es ! 9 * es ! 15 - es ! 11 * es ! 13)
               - es ! 5 * (es ! 8 * es ! 15 - es ! 11 * es ! 12)
               + es ! 7 * (es ! 8 * es ! 13 - es ! 9 * es ! 12))
     - es ! 3 * (es ! 4 * (es ! 9 * es ! 14 - es ! 10 * es ! 13)
               - es ! 5 * (es ! 8 * es ! 14 - es ! 10 * es ! 12)
               + es ! 6 * (es ! 8 * es ! 13 - es ! 9 * es ! 12))"
  by (simp add: Matrix4x4_determinant_def upt_4 Matrix4x4_cofactor_row0 Matrix3x3_determinant_eq)

lemma product_4:
  "List.product [0..<4] [0..<4] =
     [(0,0), (0,1), (0,2), (0,3), (1,0), (1,1), (1,2), (1,3),
      (2,0), (2,1), (2,2), (2,3), (3,0), (3,1), (3,2), (3,3)]"
  by (simp add: upt_4)

lemma product_3:
  "List.product [0..<3] [0..<3] =
     [(0,0), (0,1), (0,2), (1,0), (1,1), (1,2), (2,0), (2,1), (2,2)]"
  by (simp add: upt_3)

lemma product_2:
  "List.product [0..<2] [0..<2] = [(0,0), (0,1), (1,0), (1,1)]"
  by (simp add: upt_2)

text \<open>The copies, entry by entry.\<close>

lemma adjoint3_eq:
  "adjoint3 [a0, a1, a2, a3, a4, a5, a6, a7, a8] i j =
    (if i = 0 then [if j = 0 then 1 else 0, a1, a2, if j = 1 then 1 else 0, a4, a5,
                    if j = 2 then 1 else 0, a7, a8]
     else if i = 1 then [a0, if j = 0 then 1 else 0, a2, a3, if j = 1 then 1 else 0, a5,
                    a6, if j = 2 then 1 else 0, a8]
     else if i = 2 then [a0, a1, if j = 0 then 1 else 0, a3, a4, if j = 1 then 1 else 0,
                    a6, a7, if j = 2 then 1 else 0]
     else if i = 3 then [a0, a1, a2, if j = 0 then 1 else 0, a4, a5, if j = 1 then 1 else 0,
                    a7, a8, if j = 2 then 1 else 0]
     else adjoint3 [a0, a1, a2, a3, a4, a5, a6, a7, a8] i j)"
  by (simp add: adjoint3_def upt_3 array_set_def)

lemma adjoint4_eq:
  "adjoint4 [a0, a1, a2, a3, a4, a5, a6, a7, a8, a9, a10, a11, a12, a13, a14, a15] i j =
    (if i = 0 then [if j = 0 then 1 else 0, a1, a2, a3, if j = 1 then 1 else 0, a5, a6, a7,
                    if j = 2 then 1 else 0, a9, a10, a11, if j = 3 then 1 else 0, a13, a14, a15]
     else if i = 1 then [a0, if j = 0 then 1 else 0, a2, a3, a4, if j = 1 then 1 else 0, a6, a7,
                    a8, if j = 2 then 1 else 0, a10, a11, a12, if j = 3 then 1 else 0, a14, a15]
     else if i = 2 then [a0, a1, if j = 0 then 1 else 0, a3, a4, a5, if j = 1 then 1 else 0, a7,
                    a8, a9, if j = 2 then 1 else 0, a11, a12, a13, if j = 3 then 1 else 0, a15]
     else if i = 3 then [a0, a1, a2, if j = 0 then 1 else 0, a4, a5, a6, if j = 1 then 1 else 0,
                    a8, a9, a10, if j = 2 then 1 else 0, a12, a13, a14, if j = 3 then 1 else 0]
     else adjoint4 [a0, a1, a2, a3, a4, a5, a6, a7, a8, a9, a10, a11, a12, a13, a14, a15] i j)"
  by (simp add: adjoint4_def upt_4 array_set_def)

lemma inverse3_identity:
  "Matrix3x3_inverse [[1, 0, 0, 0, 1, 0, 0, 0, 1]] 0 =
    (Inr 1, [[1, 0, 0, 0, 1, 0, 0, 0, 1],
     [1, 0, 0, 0, 0, 1, 0, 0, 0, 0, 1, 0, 1, 1, 1, 1],
   [1, 0, 0, 0, 1, 0, 0, 0, 1], [0, 0, 0, 1, 1, 0, 0, 0, 1],
   [0, 0, 0, 0, 1, 0, 1, 0, 1], [0, 0, 0, 0, 1, 0, 0, 0, 1],
   [1, 1, 0, 0, 0, 0, 0, 0, 1], [1, 0, 0, 0, 1, 0, 0, 0, 1],
   [1, 0, 0, 0, 0, 0, 0, 1, 1], [1, 0, 0, 0, 0, 0, 0, 0, 1],
   [1, 0, 1, 0, 1, 0, 0, 0, 0], [1, 0, 0, 0, 1, 1, 0, 0, 0],
   [1, 0, 0, 0, 1, 0, 0, 0, 1], [1, 0, 0, 0, 1, 0, 0, 0, 0],
   [1, 0, 0, 1, 1, 0, 0, 0, 1, 0], [1, 0, 0, 0, 1, 0, 1, 0, 1, 0],
   [1, 0, 0, 0, 1, 0, 0, 0, 1, 1], [1, 0, 0, 0, 1, 0, 0, 0, 1, 0]])"
  by (simp add: Matrix3x3_inverse_eq Matrix3x3_determinant_eq product_4 adjoint3_eq)

section \<open>The inverse of a Matrix3x3\<close>

text \<open>
  C1. For a non-singular \<open>Matrix3x3\<close>, \<open>inverse()\<close> should return 9 entries, the one at
  row \<open>i\<close>, column \<open>j\<close> being \<open>_adjointDeterminant(i, j) / determinant()\<close>. On the code
  the loops run to 4: for the identity matrix the result has 16 entries, laid out with
  a stride of 4, and the entry at row 1, column 1 of a 3x3 matrix (index \<open>1 * 3 + 1\<close>) is 0
  where \<open>_adjointDeterminant(1, 1) / determinant()\<close> is 1.
\<close>

theorem Matrix3x3_inverse_of_identity:
  "fst (Matrix3x3_inverse [[1, 0, 0, 0, 1, 0, 0, 0, 1]] 0) = Inr 1 \<and>
   snd (Matrix3x3_inverse [[1, 0, 0, 0, 1, 0, 0, 0, 1]] 0) ! 1
     = [1, 0, 0, 0, 0, 1, 0, 0, 0, 0, 1, 0, 1, 1, 1, 1] \<and>
   snd (Matrix3x3_inverse [[1, 0, 0, 0, 1, 0, 0, 0, 1]] 0) ! 1 ! (1 * 3 + 1) = 0 \<and>
   fst (Matrix3x3_adjointDeterminant [[1, 0, 0, 0, 1, 0, 0, 0, 1]] 0 1 1)
     / Matrix3x3_determinant [1, 0, 0, 0, 1, 0, 0, 0, 1] = 1"
  by (simp add: inverse3_identity Matrix3x3_adjointDeterminant_eq Matrix3x3_determinant_eq
      adjoint3_eq)

text \<open>
  C2. Every matrix of order \<open>N\<close> should hold exactly \<open>N\<^sup>2\<close> entries, after every
  operation. On the code, \<open>Matrix3x3.identity().inverse()\<close> is a \<open>Matrix3x3\<close> with 16
  entries.
\<close>

theorem Matrix3x3_inverse_length:
  "(let (m, h) = Matrix3x3_identity [] in
     length (h ! m) = 9 \<and>
     (case Matrix3x3_inverse h m of
        (Inr r, h') \<Rightarrow> length (h' ! r) = 16
      | (Inl e, h') \<Rightarrow> False))"
  by (simp add: Matrix3x3_identity_def new_array_def inverse3_identity)

text \<open>
  C3. \<open>M.mult(M.inverse())\<close> and \<open>M.inverse().mult(M)\<close> should give the identity. On the
  code, with \<open>M\<close> the identity of order 3, the first leaves \<open>M\<close> holding
  \<open>[1, 0, 0, 0, 0, 1, 0, 0, 0]\<close> and the second leaves the inverse holding its 16 entries,
  the first nine of them \<open>[1, 0, 0, 0, 0, 1, 0, 0, 0]\<close>.
\<close>

theorem Matrix3x3_inverse_law_fails:
  "(let h = [[1, 0, 0, 0, 1, 0, 0, 0, 1]];
        (r, h1) = Matrix3x3_inverse h 0
    in r = Inr 1 \<and>
       Matrix3x3_mult h1 0 1 ! 0 = [1, 0, 0, 0, 0, 1, 0, 0, 0] \<and>
       Matrix3x3_mult h1 1 0 ! 1 = [1, 0, 0, 0, 0, 1, 0, 0, 0, 0, 1, 0, 1, 1, 1, 1])"
  by (simp add: inverse3_identity Matrix3x3_mult_eq product_3 upt_3)

section \<open>The operand order of premult\<close>

text \<open>
  C4. \<open>A.premult(B)\<close> should leave \<open>A\<close> holding \<open>B \<times> A\<close>. On the code, for
  \<open>A = [1, 2, 3, 4]\<close> and \<open>B = [0, 1, 0, 0]\<close> of order 2, \<open>A.premult(B)\<close> leaves \<open>A\<close>
  holding \<open>[0, 1, 0, 3]\<close>, which is \<open>A \<times> B\<close> (what \<open>A.mult(B)\<close> gives), where \<open>B \<times> A\<close>
  (what \<open>B.mult(A)\<close> gives) is \<open>[3, 4, 0, 0]\<close>; and likewise for order 3.
\<close>

theorem premult_operand_order:
  "Matrix2x2_premult [[1, 2, 3, 4], [0, 1, 0, 0]] 0 1 ! 0 = [0, 1, 0, 3] \<and>
   Matrix2x2_mult [[1, 2, 3, 4], [0, 1, 0, 0]] 0 1 ! 0 = [0, 1, 0, 3] \<and>
   Matrix2x2_mult [[1, 2, 3, 4], [0, 1, 0, 0]] 1 0 ! 1 = [3, 4, 0, 0] \<and>
   Matrix3x3_premult [[1, 2, 3, 4, 5, 6, 7, 8, 9], [0, 1, 0, 0, 0, 0, 0, 0, 0]] 0 1 ! 0
     = [0, 1, 0, 0, 4, 0, 0, 7, 0] \<and>
   Matrix3x3_mult [[1, 2, 3, 4, 5, 6, 7, 8, 9], [0, 1, 0, 0, 0, 0, 0, 0, 0]] 1 0 ! 1
     = [4, 5, 6, 0, 0, 0, 0, 0, 0]"
  by (simp add: Matrix2x2_premult_eq Matrix2x2_mult_eq Matrix3x3_premult_eq Matrix3x3_mult_eq
      product_2 product_3 upt_2 upt_3)

text \<open>For the orders 2 and 3, \<open>premult\<close> and \<open>mult\<close> are one function.\<close>

lemma premult_is_mult:
  "Matrix2x2_premult h this b = Matrix2x2_mult h this b"
  "Matrix3x3_premult h this b = Matrix3x3_mult h this b"
  by (simp_all add: Matrix2x2_premult_def Matrix2x2_mult_def Matrix3x3_premult_def
      Matrix3x3_mult_def mult.commute)

section \<open>Vector3: normalize, cross\<close>

lemma new_Vector3_eq:
  "fst (new_Vector3 h a b c) = length h"
  "snd (new_Vector3 h a b c) = h @ [\<lparr>x = a, y = b, z = c\<rparr>]"
  by (simp_all add: new_Vector3_def)

lemma Vector3_update_all:
  "(v::Vector3)\<lparr>x := a, y := b, z := c\<rparr> = \<lparr>x = a, y = b, z = c\<rparr>"
  by (cases v) simp

lemma Vector3_divide_eq:
  "this < length h \<Longrightarrow>
   Vector3_divide h this d = h[this := \<lparr>x = x (h ! this) / d, y = y (h ! this) / d, z = z (h ! this) / d\<rparr>]"
  by (simp add: Vector3_divide_def set_x_def set_y_def set_z_def Let_def Vector3_update_all)


lemma Vector3_divide_frame:
  "length (Vector3_divide h this d) = length h"
  "n \<le> this \<Longrightarrow> take n (Vector3_divide h this d) = take n h"
  by (simp_all add: Vector3_divide_def set_x_def set_y_def set_z_def Let_def)

lemma Vector3_zeroValues_frame:
  "length (Vector3_zeroValues h this) = length h"
  "n \<le> this \<Longrightarrow> take n (Vector3_zeroValues h this) = take n h"
  by (simp_all add: Vector3_zeroValues_def set_x_def set_y_def set_z_def)

lemma Vector3_normalize_frame:
  "fst (Vector3_normalize h this) = this"
  "length (snd (Vector3_normalize h this)) = length h"
  "n \<le> this \<Longrightarrow> take n (snd (Vector3_normalize h this)) = take n h"
  by (simp_all add: Vector3_normalize_def Let_def Vector3_divide_frame Vector3_zeroValues_frame)






lemma Vector3_cross_eq:
  "Vector3_cross h v1 v2 =
     (length h, h @ [\<lparr>x = y (h ! v1) * z (h ! v2) - z (h ! v1) * y (h ! v2),
                      y = z (h ! v1) * x (h ! v2) - x (h ! v1) * z (h ! v2),
                      z = x (h ! v1) * y (h ! v2) - y (h ! v1) * x (h ! v2)\<rparr>])"
  by (simp add: Vector3_cross_def new_Vector3_def)



lemma Vector3_subtract_eq:
  "Vector3_subtract h v1 v2 =
     (length h, h @ [\<lparr>x = x (h ! v1) - x (h ! v2), y = y (h ! v1) - y (h ! v2),
                      z = z (h ! v1) - z (h ! v2)\<rparr>])"
  by (simp add: Vector3_subtract_def new_Vector3_def)

lemma length_3_cases: "length xs = 3 \<Longrightarrow> \<exists>a b c. xs = [a, b, c]"
  by (auto simp: length_Suc_conv numeral_3_eq_3)

lemma take_shorter:
  assumes "take m xs = take m ys" "n \<le> m"
  shows "take n xs = take n ys"
proof -
  have "take n xs = take n (take m xs)"
    using assms(2) by (simp add: min_def)
  also have "\<dots> = take n (take m ys)"
    by (simp only: assms(1))
  also have "\<dots> = take n ys"
    using assms(2) by (simp add: min_def)
  finally show ?thesis .
qed

section \<open>Matrix4x4.lookAt and its arguments\<close>

text \<open>What \<open>lookAt\<close> does to the vector store: three new vectors, nothing else.\<close>

lemma Matrix4x4_lookAt_store:
  "\<exists>v1 v2 v3. fst (snd (Matrix4x4_lookAt vh mh origin target (Some up))) = vh @ [v1, v2, v3]"
proof -
  obtain d vh1 where s1: "Vector3_subtract vh origin target = (d, vh1)"
    by force
  obtain zAxis vh2 where s2: "Vector3_normalize vh1 d = (zAxis, vh2)"
    by force
  obtain c1 vh3 where s3: "Vector3_cross vh2 up zAxis = (c1, vh3)"
    by force
  obtain xAxis vh4 where s4: "Vector3_normalize vh3 c1 = (xAxis, vh4)"
    by force
  obtain c2 vh5 where s5: "Vector3_cross vh4 zAxis xAxis = (c2, vh5)"
    by force
  obtain yAxis vh6 where s6: "Vector3_normalize vh5 c2 = (yAxis, vh6)"
    by force
  have r: "fst (snd (Matrix4x4_lookAt vh mh origin target (Some up))) = vh6"
    by (simp add: Matrix4x4_lookAt_def s1 s2 s3 s4 s5 s6 new_array_def)
  have d: "d = length vh" "length vh1 = length vh + 1" "take (length vh) vh1 = vh"
    using s1 by (auto simp: Vector3_subtract_eq)
  have n2: "length vh2 = length vh + 1" "take (length vh) vh2 = vh"
    using Vector3_normalize_frame(2) [of vh1 d] Vector3_normalize_frame(3) [of "length vh" d vh1] s2 d by simp_all
  have c1: "c1 = length vh + 1" "length vh3 = length vh + 2" "take (length vh + 1) vh3 = vh2"
    using s3 n2 by (auto simp: Vector3_cross_eq)
  have n4: "length vh4 = length vh + 2" "take (length vh + 1) vh4 = take (length vh + 1) vh3"
    using Vector3_normalize_frame(2) [of vh3 c1] Vector3_normalize_frame(3) [of "length vh + 1" c1 vh3] s4 c1 by simp_all
  have c2: "c2 = length vh + 2" "length vh5 = length vh + 3" "take (length vh + 2) vh5 = vh4"
    using s5 n4 by (auto simp: Vector3_cross_eq)
  have n6: "length vh6 = length vh + 3" "take (length vh + 2) vh6 = take (length vh + 2) vh5"
    using Vector3_normalize_frame(2) [of vh5 c2] Vector3_normalize_frame(3) [of "length vh + 2" c2 vh5] s6 c2 by simp_all
  have "take (length vh) vh6 = take (length vh) vh5"
    using n6(2) by (rule take_shorter) simp
  also have "\<dots> = take (length vh) vh4"
    unfolding c2(3) [symmetric] by (simp add: min_def)
  also have "\<dots> = take (length vh) vh3"
    using n4(2) by (rule take_shorter) simp
  also have "\<dots> = take (length vh) vh2"
    unfolding c1(3) [symmetric] by (simp add: min_def)
  finally have pre: "take (length vh) vh6 = vh"
    using n2 by simp
  have "vh6 = take (length vh) vh6 @ drop (length vh) vh6"
    by simp
  moreover have "length (drop (length vh) vh6) = 3"
    using n6 by simp
  then obtain v1 v2 v3 where "drop (length vh) vh6 = [v1, v2, v3]"
    using length_3_cases by blast
  ultimately have "vh6 = vh @ [v1, v2, v3]"
    using pre by simp
  then show ?thesis
    using r by blast
qed

text \<open>
  C10. \<open>Matrix4x4.lookAt(origin, target, up)\<close> leaves the three argument vectors, and
  every other vector that existed before the call, as they were: the \<open>normalize\<close> calls
  work on the vectors that \<open>subtract\<close> and \<open>cross\<close> have just created.
\<close>

theorem Matrix4x4_lookAt_keeps_arguments:
  assumes "origin < length vh" "target < length vh" "up < length vh"
  shows "(let (m, vh', mh') = Matrix4x4_lookAt vh mh origin target (Some up) in
      take (length vh) vh' = vh \<and>
      vh' ! origin = vh ! origin \<and> vh' ! target = vh ! target \<and> vh' ! up = vh ! up)"
proof -
  obtain v1 v2 v3 where
    "fst (snd (Matrix4x4_lookAt vh mh origin target (Some up))) = vh @ [v1, v2, v3]"
    using Matrix4x4_lookAt_store by blast
  then show ?thesis
    using assms by (simp add: split_beta nth_append)
qed

theorem Matrix4x4_lookAt_keeps_arguments_witness:
  "(0::nat) < length [\<lparr>x = 1, y = 0, z = 0\<rparr>, \<lparr>x = 0, y = 0, z = 0\<rparr>, \<lparr>x = 0, y = 2, z = 0\<rparr>] \<and>
   (1::nat) < length [\<lparr>x = 1, y = 0, z = 0\<rparr>, \<lparr>x = 0, y = 0, z = 0\<rparr>, \<lparr>x = 0, y = 2, z = 0\<rparr>] \<and>
   (2::nat) < length [\<lparr>x = 1, y = 0, z = 0\<rparr>, \<lparr>x = 0, y = 0, z = 0\<rparr>, \<lparr>x = 0, y = 2, z = 0\<rparr>] \<and>
   Matrix4x4_lookAt [\<lparr>x = 1, y = 0, z = 0\<rparr>, \<lparr>x = 0, y = 0, z = 0\<rparr>, \<lparr>x = 0, y = 2, z = 0\<rparr>]
       [] 0 1 (Some 2)
     = (0,
        [\<lparr>x = 1, y = 0, z = 0\<rparr>, \<lparr>x = 0, y = 0, z = 0\<rparr>, \<lparr>x = 0, y = 2, z = 0\<rparr>,
         \<lparr>x = 1, y = 0, z = 0\<rparr>, \<lparr>x = 0, y = 0, z = - 1\<rparr>, \<lparr>x = 0, y = 1, z = 0\<rparr>],
        [[0, 0, - 1, 0, 0, 1, 0, 0, 1, 0, 0, 0, 1, 0, 0, 1]])"
proof -
  let ?vh = "[\<lparr>x = 1, y = 0, z = 0\<rparr>, \<lparr>x = 0, y = 0, z = 0\<rparr>, \<lparr>x = 0, y = 2, z = 0\<rparr>]"
  let ?z = "\<lparr>x = 1, y = 0, z = 0\<rparr>"
  let ?x = "\<lparr>x = 0, y = 0, z = - 1\<rparr>"
  let ?y = "\<lparr>x = 0, y = 1, z = 0\<rparr>"
  have v: "(0::nat) < length ?vh" "(1::nat) < length ?vh" "(2::nat) < length ?vh"
    by simp_all
  have eps: "Number_EPSILON < 1" "Number_EPSILON < 2"
    by (simp_all add: Number_EPSILON_def)
  have s1: "Vector3_subtract ?vh 0 (Suc 0) = (3, [\<lparr>x = 1, y = 0, z = 0\<rparr>, \<lparr>x = 0, y = 0, z = 0\<rparr>, \<lparr>x = 0, y = 2, z = 0\<rparr>, ?z])"
    by (simp add: Vector3_subtract_eq)
  have s2: "Vector3_normalize ([\<lparr>x = 1, y = 0, z = 0\<rparr>, \<lparr>x = 0, y = 0, z = 0\<rparr>, \<lparr>x = 0, y = 2, z = 0\<rparr>, ?z]) 3 = (3, [\<lparr>x = 1, y = 0, z = 0\<rparr>, \<lparr>x = 0, y = 0, z = 0\<rparr>, \<lparr>x = 0, y = 2, z = 0\<rparr>, ?z])"
    using eps by (simp add: Vector3_normalize_def Vector3_divide_eq Vector3_length_def)
  have s3: "Vector3_cross ([\<lparr>x = 1, y = 0, z = 0\<rparr>, \<lparr>x = 0, y = 0, z = 0\<rparr>, \<lparr>x = 0, y = 2, z = 0\<rparr>, ?z]) 2 3 = (4, [\<lparr>x = 1, y = 0, z = 0\<rparr>, \<lparr>x = 0, y = 0, z = 0\<rparr>, \<lparr>x = 0, y = 2, z = 0\<rparr>, ?z, \<lparr>x = 0, y = 0, z = - 2\<rparr>])"
    by (simp add: Vector3_cross_eq)
  have s4: "Vector3_normalize ([\<lparr>x = 1, y = 0, z = 0\<rparr>, \<lparr>x = 0, y = 0, z = 0\<rparr>, \<lparr>x = 0, y = 2, z = 0\<rparr>, ?z, \<lparr>x = 0, y = 0, z = - 2\<rparr>]) 4 = (4, [\<lparr>x = 1, y = 0, z = 0\<rparr>, \<lparr>x = 0, y = 0, z = 0\<rparr>, \<lparr>x = 0, y = 2, z = 0\<rparr>, ?z, ?x])"
    using eps by (simp add: Vector3_normalize_def Vector3_divide_eq Vector3_length_def)
  have s5: "Vector3_cross ([\<lparr>x = 1, y = 0, z = 0\<rparr>, \<lparr>x = 0, y = 0, z = 0\<rparr>, \<lparr>x = 0, y = 2, z = 0\<rparr>, ?z, ?x]) 3 4 = (5, [\<lparr>x = 1, y = 0, z = 0\<rparr>, \<lparr>x = 0, y = 0, z = 0\<rparr>, \<lparr>x = 0, y = 2, z = 0\<rparr>, ?z, ?x, ?y])"
    by (simp add: Vector3_cross_eq)
  have s6: "Vector3_normalize ([\<lparr>x = 1, y = 0, z = 0\<rparr>, \<lparr>x = 0, y = 0, z = 0\<rparr>, \<lparr>x = 0, y = 2, z = 0\<rparr>, ?z, ?x, ?y]) 5 = (5, [\<lparr>x = 1, y = 0, z = 0\<rparr>, \<lparr>x = 0, y = 0, z = 0\<rparr>, \<lparr>x = 0, y = 2, z = 0\<rparr>, ?z, ?x, ?y])"
    using eps by (simp add: Vector3_normalize_def Vector3_divide_eq Vector3_length_def)
  have run: "Matrix4x4_lookAt ?vh [] 0 1 (Some 2)
      = (0, [\<lparr>x = 1, y = 0, z = 0\<rparr>, \<lparr>x = 0, y = 0, z = 0\<rparr>, \<lparr>x = 0, y = 2, z = 0\<rparr>, ?z, ?x, ?y], [[0, 0, - 1, 0, 0, 1, 0, 0, 1, 0, 0, 0, 1, 0, 0, 1]])"
    by (simp add: Matrix4x4_lookAt_def s1 s2 s3 s4 s5 s6 new_array_def)
  from Matrix4x4_lookAt_keeps_arguments [OF v, of "[]"]
  show ?thesis
    unfolding run by simp
qed

section \<open>Determinants\<close>






section \<open>Matrix3x3.rotation\<close>

lemma row_times_eq:
  "row_times v m =
     [v ! 0 * m ! 0 + v ! 1 * m ! 3 + v ! 2 * m ! 6,
      v ! 0 * m ! 1 + v ! 1 * m ! 4 + v ! 2 * m ! 7,
      v ! 0 * m ! 2 + v ! 1 * m ! 5 + v ! 2 * m ! 8]"
  by (simp add: row_times_def upt_3)

text \<open>The first row of \<open>this \<times> b\<close>, as \<open>mult\<close> computes it, is that product.\<close>

lemma Matrix3x3_mult_first_row:
  assumes "this < length h" "b < length h" "this \<noteq> b" "9 \<le> length (h ! this)"
  shows "take 3 (Matrix3x3_mult h this b ! this) = row_times (take 3 (h ! this)) (h ! b)"
  using assms by (simp add: Matrix3x3_mult_eq product_3 upt_3 row_times_eq nth_append eval_nat_numeral)

text \<open>
  C6, as amended. \<open>Matrix3x3.rotation(\<pi>/2)\<close> is \<open>[0, -1, 0, 1, 0, 0, 0, 0, 1]\<close>, and the row
  vector \<open>(1, 0, 1)\<close> multiplied by it on the right is \<open>(0, -1, 1)\<close>: so says the product
  of a row vector and a matrix, and so says the library's own \<open>mult\<close> for a matrix whose
  first row is \<open>(1, 0, 1)\<close>.
\<close>

theorem Matrix3x3_rotation_quarter_turn:
  "(let (r, h) = Matrix3x3_rotation [[1, 0, 1, 0, 0, 0, 0, 0, 0]] (pi / 2) in
      h ! r = [0, - 1, 0, 1, 0, 0, 0, 0, 1] \<and>
      row_times [1, 0, 1] (h ! r) = [0, - 1, 1] \<and>
      Matrix3x3_mult h 0 r ! 0 = [0, - 1, 1, 0, 0, 0, 0, 0, 0])"
  by (simp add: Matrix3x3_rotation_def new_array_def row_times_eq Matrix3x3_mult_eq
      product_3 upt_3)

text \<open>
  C6, as stated, asks for \<open>(0, 1, 1)\<close>: the second component is off by 2.
\<close>

theorem Matrix3x3_rotation_quarter_turn_not_0_1_1:
  "(let (r, h) = Matrix3x3_rotation [[1, 0, 1, 0, 0, 0, 0, 0, 0]] (pi / 2) in
      row_times [1, 0, 1] (h ! r) \<noteq> [0, 1, 1] \<and>
      \<bar>row_times [1, 0, 1] (h ! r) ! 1 - [0, 1, 1] ! 1\<bar> = 2 \<and>
      take 3 (Matrix3x3_mult h 0 r ! 0) \<noteq> [0, 1, 1] \<and>
      \<bar>Matrix3x3_mult h 0 r ! 0 ! 1 - [0, 1, 1] ! 1\<bar> = 2)"
  by (simp add: Matrix3x3_rotation_def new_array_def row_times_eq Matrix3x3_mult_eq
      product_3 upt_3)

section \<open>inverse: the singular case\<close>








section \<open>The inverse of a Matrix4x4\<close>

lemma length_16_cases:
  assumes "length (es::real list) = 16"
  shows "\<exists>a0 a1 a2 a3 a4 a5 a6 a7 a8 a9 a10 a11 a12 a13 a14 a15.
           es = [a0, a1, a2, a3, a4, a5, a6, a7, a8, a9, a10, a11, a12, a13, a14, a15]"
  using assms by (auto simp: length_Suc_conv eval_nat_numeral)

lemma mult4_entries:
  "map (\<lambda>p. fold (\<lambda>k s. s + A ! (fst p * 4 + k) * B ! (k * 4 + snd p)) [0..<4] (0::real))
       (List.product [0..<4] [0..<4])
   = [A ! 0 * B ! 0 + A ! 1 * B ! 4 + A ! 2 * B ! 8 + A ! 3 * B ! 12,
      A ! 0 * B ! 1 + A ! 1 * B ! 5 + A ! 2 * B ! 9 + A ! 3 * B ! 13,
      A ! 0 * B ! 2 + A ! 1 * B ! 6 + A ! 2 * B ! 10 + A ! 3 * B ! 14,
      A ! 0 * B ! 3 + A ! 1 * B ! 7 + A ! 2 * B ! 11 + A ! 3 * B ! 15,
      A ! 4 * B ! 0 + A ! 5 * B ! 4 + A ! 6 * B ! 8 + A ! 7 * B ! 12,
      A ! 4 * B ! 1 + A ! 5 * B ! 5 + A ! 6 * B ! 9 + A ! 7 * B ! 13,
      A ! 4 * B ! 2 + A ! 5 * B ! 6 + A ! 6 * B ! 10 + A ! 7 * B ! 14,
      A ! 4 * B ! 3 + A ! 5 * B ! 7 + A ! 6 * B ! 11 + A ! 7 * B ! 15,
      A ! 8 * B ! 0 + A ! 9 * B ! 4 + A ! 10 * B ! 8 + A ! 11 * B ! 12,
      A ! 8 * B ! 1 + A ! 9 * B ! 5 + A ! 10 * B ! 9 + A ! 11 * B ! 13,
      A ! 8 * B ! 2 + A ! 9 * B ! 6 + A ! 10 * B ! 10 + A ! 11 * B ! 14,
      A ! 8 * B ! 3 + A ! 9 * B ! 7 + A ! 10 * B ! 11 + A ! 11 * B ! 15,
      A ! 12 * B ! 0 + A ! 13 * B ! 4 + A ! 14 * B ! 8 + A ! 15 * B ! 12,
      A ! 12 * B ! 1 + A ! 13 * B ! 5 + A ! 14 * B ! 9 + A ! 15 * B ! 13,
      A ! 12 * B ! 2 + A ! 13 * B ! 6 + A ! 14 * B ! 10 + A ! 15 * B ! 14,
      A ! 12 * B ! 3 + A ! 13 * B ! 7 + A ! 14 * B ! 11 + A ! 15 * B ! 15]"
  by (simp add: product_4 upt_4 eval_nat_numeral)

lemma cramer_right:
  fixes a0 a1 a2 a3 a4 a5 a6 a7 a8 a9 a10 a11 a12 a13 a14 a15 :: real
  defines "A \<equiv> [a0, a1, a2, a3, a4, a5, a6, a7, a8, a9, a10, a11, a12, a13, a14, a15]"
  shows "a0 * Matrix4x4_determinant (adjoint4 A 0 0) + a1 * Matrix4x4_determinant (adjoint4 A 1 0) + a2 * Matrix4x4_determinant (adjoint4 A 2 0) + a3 * Matrix4x4_determinant (adjoint4 A 3 0) = Matrix4x4_determinant A"
    and "a0 * Matrix4x4_determinant (adjoint4 A 0 1) + a1 * Matrix4x4_determinant (adjoint4 A 1 1) + a2 * Matrix4x4_determinant (adjoint4 A 2 1) + a3 * Matrix4x4_determinant (adjoint4 A 3 1) = 0"
    and "a0 * Matrix4x4_determinant (adjoint4 A 0 2) + a1 * Matrix4x4_determinant (adjoint4 A 1 2) + a2 * Matrix4x4_determinant (adjoint4 A 2 2) + a3 * Matrix4x4_determinant (adjoint4 A 3 2) = 0"
    and "a0 * Matrix4x4_determinant (adjoint4 A 0 3) + a1 * Matrix4x4_determinant (adjoint4 A 1 3) + a2 * Matrix4x4_determinant (adjoint4 A 2 3) + a3 * Matrix4x4_determinant (adjoint4 A 3 3) = 0"
    and "a4 * Matrix4x4_determinant (adjoint4 A 0 0) + a5 * Matrix4x4_determinant (adjoint4 A 1 0) + a6 * Matrix4x4_determinant (adjoint4 A 2 0) + a7 * Matrix4x4_determinant (adjoint4 A 3 0) = 0"
    and "a4 * Matrix4x4_determinant (adjoint4 A 0 1) + a5 * Matrix4x4_determinant (adjoint4 A 1 1) + a6 * Matrix4x4_determinant (adjoint4 A 2 1) + a7 * Matrix4x4_determinant (adjoint4 A 3 1) = Matrix4x4_determinant A"
    and "a4 * Matrix4x4_determinant (adjoint4 A 0 2) + a5 * Matrix4x4_determinant (adjoint4 A 1 2) + a6 * Matrix4x4_determinant (adjoint4 A 2 2) + a7 * Matrix4x4_determinant (adjoint4 A 3 2) = 0"
    and "a4 * Matrix4x4_determinant (adjoint4 A 0 3) + a5 * Matrix4x4_determinant (adjoint4 A 1 3) + a6 * Matrix4x4_determinant (adjoint4 A 2 3) + a7 * Matrix4x4_determinant (adjoint4 A 3 3) = 0"
    and "a8 * Matrix4x4_determinant (adjoint4 A 0 0) + a9 * Matrix4x4_determinant (adjoint4 A 1 0) + a10 * Matrix4x4_determinant (adjoint4 A 2 0) + a11 * Matrix4x4_determinant (adjoint4 A 3 0) = 0"
    and "a8 * Matrix4x4_determinant (adjoint4 A 0 1) + a9 * Matrix4x4_determinant (adjoint4 A 1 1) + a10 * Matrix4x4_determinant (adjoint4 A 2 1) + a11 * Matrix4x4_determinant (adjoint4 A 3 1) = 0"
    and "a8 * Matrix4x4_determinant (adjoint4 A 0 2) + a9 * Matrix4x4_determinant (adjoint4 A 1 2) + a10 * Matrix4x4_determinant (adjoint4 A 2 2) + a11 * Matrix4x4_determinant (adjoint4 A 3 2) = Matrix4x4_determinant A"
    and "a8 * Matrix4x4_determinant (adjoint4 A 0 3) + a9 * Matrix4x4_determinant (adjoint4 A 1 3) + a10 * Matrix4x4_determinant (adjoint4 A 2 3) + a11 * Matrix4x4_determinant (adjoint4 A 3 3) = 0"
    and "a12 * Matrix4x4_determinant (adjoint4 A 0 0) + a13 * Matrix4x4_determinant (adjoint4 A 1 0) + a14 * Matrix4x4_determinant (adjoint4 A 2 0) + a15 * Matrix4x4_determinant (adjoint4 A 3 0) = 0"
    and "a12 * Matrix4x4_determinant (adjoint4 A 0 1) + a13 * Matrix4x4_determinant (adjoint4 A 1 1) + a14 * Matrix4x4_determinant (adjoint4 A 2 1) + a15 * Matrix4x4_determinant (adjoint4 A 3 1) = 0"
    and "a12 * Matrix4x4_determinant (adjoint4 A 0 2) + a13 * Matrix4x4_determinant (adjoint4 A 1 2) + a14 * Matrix4x4_determinant (adjoint4 A 2 2) + a15 * Matrix4x4_determinant (adjoint4 A 3 2) = 0"
    and "a12 * Matrix4x4_determinant (adjoint4 A 0 3) + a13 * Matrix4x4_determinant (adjoint4 A 1 3) + a14 * Matrix4x4_determinant (adjoint4 A 2 3) + a15 * Matrix4x4_determinant (adjoint4 A 3 3) = Matrix4x4_determinant A"
  by (simp_all add: A_def adjoint4_eq Matrix4x4_determinant_eq algebra_simps)

lemma cramer_left:
  fixes a0 a1 a2 a3 a4 a5 a6 a7 a8 a9 a10 a11 a12 a13 a14 a15 :: real
  defines "A \<equiv> [a0, a1, a2, a3, a4, a5, a6, a7, a8, a9, a10, a11, a12, a13, a14, a15]"
  shows "Matrix4x4_determinant (adjoint4 A 0 0) * a0 + Matrix4x4_determinant (adjoint4 A 0 1) * a4 + Matrix4x4_determinant (adjoint4 A 0 2) * a8 + Matrix4x4_determinant (adjoint4 A 0 3) * a12 = Matrix4x4_determinant A"
    and "Matrix4x4_determinant (adjoint4 A 0 0) * a1 + Matrix4x4_determinant (adjoint4 A 0 1) * a5 + Matrix4x4_determinant (adjoint4 A 0 2) * a9 + Matrix4x4_determinant (adjoint4 A 0 3) * a13 = 0"
    and "Matrix4x4_determinant (adjoint4 A 0 0) * a2 + Matrix4x4_determinant (adjoint4 A 0 1) * a6 + Matrix4x4_determinant (adjoint4 A 0 2) * a10 + Matrix4x4_determinant (adjoint4 A 0 3) * a14 = 0"
    and "Matrix4x4_determinant (adjoint4 A 0 0) * a3 + Matrix4x4_determinant (adjoint4 A 0 1) * a7 + Matrix4x4_determinant (adjoint4 A 0 2) * a11 + Matrix4x4_determinant (adjoint4 A 0 3) * a15 = 0"
    and "Matrix4x4_determinant (adjoint4 A 1 0) * a0 + Matrix4x4_determinant (adjoint4 A 1 1) * a4 + Matrix4x4_determinant (adjoint4 A 1 2) * a8 + Matrix4x4_determinant (adjoint4 A 1 3) * a12 = 0"
    and "Matrix4x4_determinant (adjoint4 A 1 0) * a1 + Matrix4x4_determinant (adjoint4 A 1 1) * a5 + Matrix4x4_determinant (adjoint4 A 1 2) * a9 + Matrix4x4_determinant (adjoint4 A 1 3) * a13 = Matrix4x4_determinant A"
    and "Matrix4x4_determinant (adjoint4 A 1 0) * a2 + Matrix4x4_determinant (adjoint4 A 1 1) * a6 + Matrix4x4_determinant (adjoint4 A 1 2) * a10 + Matrix4x4_determinant (adjoint4 A 1 3) * a14 = 0"
    and "Matrix4x4_determinant (adjoint4 A 1 0) * a3 + Matrix4x4_determinant (adjoint4 A 1 1) * a7 + Matrix4x4_determinant (adjoint4 A 1 2) * a11 + Matrix4x4_determinant (adjoint4 A 1 3) * a15 = 0"
    and "Matrix4x4_determinant (adjoint4 A 2 0) * a0 + Matrix4x4_determinant (adjoint4 A 2 1) * a4 + Matrix4x4_determinant (adjoint4 A 2 2) * a8 + Matrix4x4_determinant (adjoint4 A 2 3) * a12 = 0"
    and "Matrix4x4_determinant (adjoint4 A 2 0) * a1 + Matrix4x4_determinant (adjoint4 A 2 1) * a5 + Matrix4x4_determinant (adjoint4 A 2 2) * a9 + Matrix4x4_determinant (adjoint4 A 2 3) * a13 = 0"
    and "Matrix4x4_determinant (adjoint4 A 2 0) * a2 + Matrix4x4_determinant (adjoint4 A 2 1) * a6 + Matrix4x4_determinant (adjoint4 A 2 2) * a10 + Matrix4x4_determinant (adjoint4 A 2 3) * a14 = Matrix4x4_determinant A"
    and "Matrix4x4_determinant (adjoint4 A 2 0) * a3 + Matrix4x4_determinant (adjoint4 A 2 1) * a7 + Matrix4x4_determinant (adjoint4 A 2 2) * a11 + Matrix4x4_determinant (adjoint4 A 2 3) * a15 = 0"
    and "Matrix4x4_determinant (adjoint4 A 3 0) * a0 + Matrix4x4_determinant (adjoint4 A 3 1) * a4 + Matrix4x4_determinant (adjoint4 A 3 2) * a8 + Matrix4x4_determinant (adjoint4 A 3 3) * a12 = 0"
    and "Matrix4x4_determinant (adjoint4 A 3 0) * a1 + Matrix4x4_determinant (adjoint4 A 3 1) * a5 + Matrix4x4_determinant (adjoint4 A 3 2) * a9 + Matrix4x4_determinant (adjoint4 A 3 3) * a13 = 0"
    and "Matrix4x4_determinant (adjoint4 A 3 0) * a2 + Matrix4x4_determinant (adjoint4 A 3 1) * a6 + Matrix4x4_determinant (adjoint4 A 3 2) * a10 + Matrix4x4_determinant (adjoint4 A 3 3) * a14 = 0"
    and "Matrix4x4_determinant (adjoint4 A 3 0) * a3 + Matrix4x4_determinant (adjoint4 A 3 1) * a7 + Matrix4x4_determinant (adjoint4 A 3 2) * a11 + Matrix4x4_determinant (adjoint4 A 3 3) * a15 = Matrix4x4_determinant A"
  by (simp_all add: A_def adjoint4_eq Matrix4x4_determinant_eq algebra_simps)

lemma sum4_divide_nf:
  "a * p / d + b * q / d + c * r / d + e * s / d = (a * p + b * q + c * r + e * s) / (d::real)"
  by (simp add: add_divide_distrib)

text \<open>
  For the order 4 the inverse law holds: after \<open>M.mult(M.inverse())\<close> the matrix \<open>M\<close>
  holds the identity, and after \<open>M.inverse().mult(M)\<close> the inverse does.
\<close>

lemma Matrix4x4_inverse_law:
  assumes "this < length h" "length (h ! this) = 16" "Matrix4x4_determinant (h ! this) \<noteq> 0"
  shows "(let (r, h1) = Matrix4x4_inverse h this in
      r = Inr (length h) \<and>
      Matrix4x4_mult h1 this (length h) ! this = [1, 0, 0, 0, 0, 1, 0, 0, 0, 0, 1, 0, 0, 0, 0, 1] \<and>
      Matrix4x4_mult h1 (length h) this ! length h = [1, 0, 0, 0, 0, 1, 0, 0, 0, 0, 1, 0, 0, 0, 0, 1])"
proof -
  obtain a0 a1 a2 a3 a4 a5 a6 a7 a8 a9 a10 a11 a12 a13 a14 a15
    where A: "h ! this = [a0, a1, a2, a3, a4, a5, a6, a7, a8, a9, a10, a11, a12, a13, a14, a15]"
    using length_16_cases [OF assms(2)] by blast
  let ?A = "[a0, a1, a2, a3, a4, a5, a6, a7, a8, a9, a10, a11, a12, a13, a14, a15]"
  let ?d = "Matrix4x4_determinant ?A"
  define Inv where "Inv = map (\<lambda>p. Matrix4x4_determinant (adjoint4 ?A (fst p) (snd p)) / ?d)
                (List.product [0..<4] [0..<4])"
  define copies where
    "copies = map (\<lambda>p. adjoint4 ?A (fst p) (snd p)) (List.product [0..<4] [0..<4])"
  define h1 where "h1 = h @ [Inv] @ copies"
  have d: "?d \<noteq> 0"
    using assms(3) A by simp
  have inv: "Matrix4x4_inverse h this = (Inr (length h), h1)"
    using assms(1) d by (simp add: Matrix4x4_inverse_eq A h1_def Inv_def copies_def)
  have refs: "this < length h1" "length h < length h1" "this \<noteq> length h" "length h \<noteq> this"
    using assms(1) by (simp_all add: h1_def)
  have at_this: "h1 ! this = ?A"
    using assms(1) A by (simp add: h1_def nth_append)
  have at_inv: "h1 ! length h = Inv"
    by (simp add: h1_def)
  have Inv: "Inv = [Matrix4x4_determinant (adjoint4 ?A 0 0) / ?d, Matrix4x4_determinant (adjoint4 ?A 0 1) / ?d, Matrix4x4_determinant (adjoint4 ?A 0 2) / ?d, Matrix4x4_determinant (adjoint4 ?A 0 3) / ?d, Matrix4x4_determinant (adjoint4 ?A 1 0) / ?d, Matrix4x4_determinant (adjoint4 ?A 1 1) / ?d, Matrix4x4_determinant (adjoint4 ?A 1 2) / ?d, Matrix4x4_determinant (adjoint4 ?A 1 3) / ?d, Matrix4x4_determinant (adjoint4 ?A 2 0) / ?d, Matrix4x4_determinant (adjoint4 ?A 2 1) / ?d, Matrix4x4_determinant (adjoint4 ?A 2 2) / ?d, Matrix4x4_determinant (adjoint4 ?A 2 3) / ?d, Matrix4x4_determinant (adjoint4 ?A 3 0) / ?d, Matrix4x4_determinant (adjoint4 ?A 3 1) / ?d, Matrix4x4_determinant (adjoint4 ?A 3 2) / ?d, Matrix4x4_determinant (adjoint4 ?A 3 3) / ?d]"
    by (simp add: Inv_def product_4)
  have len: "16 \<le> length (h1 ! this)" "16 \<le> length (h1 ! length h)"
    by (simp_all add: at_this at_inv Inv)
  have "Matrix4x4_mult h1 this (length h) ! this
      = map (\<lambda>p. fold (\<lambda>k s. s + ?A ! (fst p * 4 + k) * Inv ! (k * 4 + snd p)) [0..<4] 0)
          (List.product [0..<4] [0..<4]) @ drop 16 ?A"
    using refs(1) by (simp add: Matrix4x4_mult_eq [OF refs(1) refs(2) refs(3) len(1)]
        at_this at_inv nth_append)
  then have right: "Matrix4x4_mult h1 this (length h) ! this = [1, 0, 0, 0, 0, 1, 0, 0, 0, 0, 1, 0, 0, 0, 0, 1]"
    using d by (simp add: mult4_entries Inv sum4_divide_nf cramer_right [unfolded One_nat_def])
  have "Matrix4x4_mult h1 (length h) this ! length h
      = map (\<lambda>p. fold (\<lambda>k s. s + Inv ! (fst p * 4 + k) * ?A ! (k * 4 + snd p)) [0..<4] 0)
          (List.product [0..<4] [0..<4]) @ drop 16 Inv"
    using refs(2) by (simp add: Matrix4x4_mult_eq [OF refs(2) refs(1) refs(4) len(2)]
        at_this at_inv nth_append)
  then have left: "Matrix4x4_mult h1 (length h) this ! length h = [1, 0, 0, 0, 0, 1, 0, 0, 0, 0, 1, 0, 0, 0, 0, 1]"
    using d by (simp add: mult4_entries Inv sum4_divide_nf cramer_left [unfolded One_nat_def])
  show ?thesis
    unfolding inv using right left by simp
qed

lemma product_upt_nth:
  assumes "i < n" "j < n"
  shows "i * n + j < n * n" "List.product [0..<n] [0..<n] ! (i * n + j) = (i, j)"
proof -
  have "i * n + j < i * n + n"
    using assms(2) by simp
  also have "\<dots> = Suc i * n"
    by simp
  also have "\<dots> \<le> n * n"
    using assms(1) by (simp only: Suc_le_eq [symmetric] mult_le_mono1)
  finally show lt: "i * n + j < n * n" .
  show "List.product [0..<n] [0..<n] ! (i * n + j) = (i, j)"
    using lt assms by (simp add: product_nth)
qed

lemma fold_plus_sum:
  "fold (\<lambda>k s. s + f k) [0..<n] (0::real) = (\<Sum>k<n. f k)"
proof -
  have "fold (\<lambda>k s. s + f k) ks a = a + sum_list (map f ks)" for ks and a :: real
    by (induction ks arbitrary: a) (simp_all add: add.assoc)
  then show ?thesis
    by (simp add: interv_sum_list_conv_sum_set_nat atLeast0LessThan)
qed

text \<open>
  For the order 4, \<open>inverse()\<close> returns 16 entries, and the one at row \<open>i\<close>, column \<open>j\<close>
  is \<open>_adjointDeterminant(i, j) / determinant()\<close>.
\<close>

lemma Matrix4x4_inverse_entries:
  assumes "this < length h" "Matrix4x4_determinant (h ! this) \<noteq> 0" "i < 4" "j < 4"
  shows "(let (r, h1) = Matrix4x4_inverse h this in
      r = Inr (length h) \<and> length (h1 ! length h) = 16 \<and>
      h1 ! length h ! (i * 4 + j)
        = fst (Matrix4x4_adjointDeterminant h this i j) / Matrix4x4_determinant (h ! this))"
  using assms product_upt_nth [of i 4 j]
  by (simp add: Matrix4x4_inverse_eq Matrix4x4_adjointDeterminant_eq)

text \<open>
  For the order 3 the same loops run, to 4 as well: 16 entries, with
  \<open>_adjointDeterminant(i, j) / determinant()\<close> at index \<open>i * 4 + j\<close>.
\<close>

lemma Matrix3x3_inverse_entries:
  assumes "this < length h" "Matrix3x3_determinant (h ! this) \<noteq> 0" "i < 4" "j < 4"
  shows "(let (r, h1) = Matrix3x3_inverse h this in
      r = Inr (length h) \<and> length (h1 ! length h) = 16 \<and>
      h1 ! length h ! (i * 4 + j)
        = fst (Matrix3x3_adjointDeterminant h this i j) / Matrix3x3_determinant (h ! this))"
  using assms product_upt_nth [of i 4 j]
  by (simp add: Matrix3x3_inverse_eq Matrix3x3_adjointDeterminant_eq)

text \<open>
  For the order 4, \<open>A.premult(B)\<close> leaves \<open>A\<close> holding \<open>B \<times> A\<close> and \<open>A.mult(B)\<close> leaves it
  holding \<open>A \<times> B\<close>, when \<open>A\<close> and \<open>B\<close> are two objects.
\<close>

lemma Matrix4x4_premult_entries:
  assumes "this < length h" "b < length h" "this \<noteq> b" "length (h ! this) = 16" "i < 4" "j < 4"
  shows "Matrix4x4_premult h this b ! this ! (i * 4 + j)
           = (\<Sum>k<4. h ! b ! (i * 4 + k) * h ! this ! (k * 4 + j))"
    and "length (Matrix4x4_premult h this b ! this) = 16"
    and "Matrix4x4_premult h this b ! b = h ! b"
  using assms product_upt_nth [of i 4 j]
  by (simp_all add: Matrix4x4_premult_eq nth_append fold_plus_sum)

lemma Matrix4x4_mult_entries:
  assumes "this < length h" "b < length h" "this \<noteq> b" "length (h ! this) = 16" "i < 4" "j < 4"
  shows "Matrix4x4_mult h this b ! this ! (i * 4 + j)
           = (\<Sum>k<4. h ! this ! (i * 4 + k) * h ! b ! (k * 4 + j))"
    and "length (Matrix4x4_mult h this b ! this) = 16"
    and "Matrix4x4_mult h this b ! b = h ! b"
  using assms product_upt_nth [of i 4 j]
  by (simp_all add: Matrix4x4_mult_eq nth_append fold_plus_sum)

text \<open>A loop that writes into the array it reads.\<close>

lemma fold_put_self:
  assumes "this < length H" "a < length H" "a \<noteq> this"
  shows "fold (\<lambda>p h2. put h2 this (f p) (S (h2 ! a) (h2 ! this) p)) ps H
           = H[this := fold (\<lambda>p es. array_set es (f p) (S (H ! a) es p)) ps (H ! this)]"
  using assms
proof (induction ps arbitrary: H)
  case Nil
  then show ?case by simp
next
  case (Cons p ps)
  let ?H1 = "H[this := array_set (H ! this) (f p) (S (H ! a) (H ! this) p)]"
  have len1: "this < length ?H1" "a < length ?H1"
    using Cons.prems by simp_all
  have a1: "?H1 ! a = H ! a" and this1: "?H1 ! this = array_set (H ! this) (f p) (S (H ! a) (H ! this) p)"
    using Cons.prems by simp_all
  have "fold (\<lambda>p h2. put h2 this (f p) (S (h2 ! a) (h2 ! this) p)) (p # ps) H
          = fold (\<lambda>p h2. put h2 this (f p) (S (h2 ! a) (h2 ! this) p)) ps ?H1"
    by (simp add: put_def)
  also have "\<dots> = ?H1[this := fold (\<lambda>p es. array_set es (f p) (S (?H1 ! a) es p)) ps (?H1 ! this)]"
    using len1 Cons.prems(3) by (rule Cons.IH)
  finally show ?case
    unfolding a1 this1 by simp
qed

text \<open>
  When \<open>b\<close> is \<open>this\<close> itself, \<open>premult\<close> reads entries of \<open>b\<close> that it has already
  overwritten: \<open>m.premult(m)\<close> for the matrix \<open>m\<close> of sixteen ones leaves the rows
  \<open>[4, 7, 13, 25]\<close>, where \<open>m \<times> m\<close> has the rows \<open>[4, 4, 4, 4]\<close>.
\<close>

lemma Matrix4x4_premult_self:
  assumes "this < length h"
  shows "Matrix4x4_premult h this this ! this
     = fold (\<lambda>p es. array_set es (fst p * 4 + snd p)
               (fold (\<lambda>k s. s + es ! (fst p * 4 + k) * h ! this ! (k * 4 + snd p)) [0..<4] 0))
         (List.product [0..<4] [0..<4]) (h ! this)"
proof -
  let ?H = "h @ [h ! this]"
  have refs: "this < length ?H" "length h < length ?H" "length h \<noteq> this"
    using assms by simp_all
  have "Matrix4x4_premult h this this
      = fold (\<lambda>p h2. put h2 this (fst p * 4 + snd p)
           (fold (\<lambda>k s. s + h2 ! this ! (fst p * 4 + k) * h2 ! length h ! (k * 4 + snd p)) [0..<4] 0))
         (List.product [0..<4] [0..<4]) ?H"
    by (simp add: Matrix4x4_premult_def Matrix4x4_copy_def new_array_def fold_nested)
  also have "\<dots> = ?H[this := fold (\<lambda>p es. array_set es (fst p * 4 + snd p)
           (fold (\<lambda>k s. s + es ! (fst p * 4 + k) * ?H ! length h ! (k * 4 + snd p)) [0..<4] 0))
         (List.product [0..<4] [0..<4]) (?H ! this)]"
    using refs
    by (rule fold_put_self [where S = "\<lambda>A es p. fold (\<lambda>k s. s + es ! (fst p * 4 + k) * A ! (k * 4 + snd p)) [0..<4] 0"])
  finally show ?thesis
    using assms by (simp add: nth_append)
qed

lemma Matrix4x4_premult_aliased:
  "Matrix4x4_premult [[1, 1, 1, 1, 1, 1, 1, 1, 1, 1, 1, 1, 1, 1, 1, 1]] 0 0 ! 0
     = [4, 7, 13, 25, 4, 7, 13, 25, 4, 7, 13, 25, 4, 7, 13, 25]"
  by (simp add: Matrix4x4_premult_self product_4 upt_4 array_set_def)

section \<open>The number of entries\<close>

text \<open>The builders give \<open>N\<^sup>2\<close> entries, and \<open>mult\<close> and \<open>premult\<close> keep them.\<close>

lemma builders_length:
  "length (snd (Matrix2x2_identity h) ! fst (Matrix2x2_identity h)) = 4"
  "length (snd (Matrix3x3_identity h) ! fst (Matrix3x3_identity h)) = 9"
  "length (snd (Matrix3x3_translation h tx ty) ! fst (Matrix3x3_translation h tx ty)) = 9"
  "length (snd (Matrix3x3_rotation h a) ! fst (Matrix3x3_rotation h a)) = 9"
  "length (snd (Matrix3x3_scaling h sx sy) ! fst (Matrix3x3_scaling h sx sy)) = 9"
  "length (snd (Matrix3x3_projection h w ht) ! fst (Matrix3x3_projection h w ht)) = 9"
  "length (snd (Matrix4x4_identity h) ! fst (Matrix4x4_identity h)) = 16"
  "length (snd (Matrix4x4_fromTranslation h tx ty tz) ! fst (Matrix4x4_fromTranslation h tx ty tz)) = 16"
  "length (snd (Matrix4x4_fromXRotation h a) ! fst (Matrix4x4_fromXRotation h a)) = 16"
  "length (snd (Matrix4x4_fromYRotation h a) ! fst (Matrix4x4_fromYRotation h a)) = 16"
  "length (snd (Matrix4x4_fromZRotation h a) ! fst (Matrix4x4_fromZRotation h a)) = 16"
  "length (snd (Matrix4x4_fromScaling h sx sy sz) ! fst (Matrix4x4_fromScaling h sx sy sz)) = 16"
  "length (snd (Matrix4x4_orthographic h l r b t n f) ! fst (Matrix4x4_orthographic h l r b t n f)) = 16"
  "length (snd (Matrix4x4_perspective h fov asp na fa) ! fst (Matrix4x4_perspective h fov asp na fa)) = 16"
  by (simp_all add: Matrix2x2_identity_def Matrix3x3_identity_def Matrix3x3_translation_def
      Matrix3x3_rotation_def Matrix3x3_scaling_def Matrix3x3_projection_def
      Matrix4x4_identity_def Matrix4x4_fromTranslation_def Matrix4x4_fromXRotation_def
      Matrix4x4_fromYRotation_def Matrix4x4_fromZRotation_def Matrix4x4_fromScaling_def
      Matrix4x4_orthographic_def Matrix4x4_perspective_def new_array_def Let_def)

lemma mult_length:
  assumes "this < length h" "b < length h" "this \<noteq> b"
  shows "length (h ! this) = 4 \<Longrightarrow> length (Matrix2x2_mult h this b ! this) = 4"
    and "length (h ! this) = 4 \<Longrightarrow> length (Matrix2x2_premult h this b ! this) = 4"
    and "length (h ! this) = 9 \<Longrightarrow> length (Matrix3x3_mult h this b ! this) = 9"
    and "length (h ! this) = 9 \<Longrightarrow> length (Matrix3x3_premult h this b ! this) = 9"
    and "length (h ! this) = 16 \<Longrightarrow> length (Matrix4x4_mult h this b ! this) = 16"
    and "length (h ! this) = 16 \<Longrightarrow> length (Matrix4x4_premult h this b ! this) = 16"
  using assms
  by (simp_all add: Matrix2x2_mult_eq Matrix2x2_premult_eq Matrix3x3_mult_eq
      Matrix3x3_premult_eq Matrix4x4_mult_eq Matrix4x4_premult_eq nth_append)

end
